theory Spec2Isabelle
  imports Complex_Main "HOL-Library.Char_ord"
begin

section \<open>Scalars, errors and JSON documents\<close>

text \<open>
  The multi-fluid model of \<^verbatim>\<open>include/teqp/models/multifluid.hpp\<close> is embedded with
  \<^verbatim>\<open>double\<close> read as \<^typ>\<open>real\<close>: every statement below is about the exact
  arithmetic the code writes down, not about IEEE rounding.  A C++ exception is a value
  of type \<open>error\<close> on the left of a sum; \<open>Inr\<close> carries the normal result.

  \<^item> \<open>invalid_argument msg\<close> is \<^verbatim>\<open>std::invalid_argument(msg)\<close>, the only exception
    the header throws itself;
  \<^item> \<open>type_error\<close> and \<open>out_of_range\<close> are the exceptions of the JSON library
    (a value of the wrong kind is converted, \<^verbatim>\<open>at\<close> misses its key);
  \<^item> \<open>undefined_behaviour\<close> marks what C++ leaves undefined: a key missing under
    \<^verbatim>\<open>operator[]\<close> of a constant document, an index past the end of a vector.
\<close>

datatype error =
    invalid_argument string
  | type_error
  | out_of_range
  | undefined_behaviour

definition ebind :: "error + 'a \<Rightarrow> ('a \<Rightarrow> error + 'b) \<Rightarrow> error + 'b" where
  "ebind m f = (case m of Inl e \<Rightarrow> Inl e | Inr x \<Rightarrow> f x)"

text \<open>
  A \<^verbatim>\<open>nlohmann::json\<close> value.  \<open>JNum\<close> is a number stored as a \<^verbatim>\<open>double\<close>, \<open>JInt\<close> a
  number stored as a (64-bit) integer, which is how the library keeps a number written
  without fraction or exponent; an object is the list of its members, looked up by key.
\<close>

datatype json =
    JNull
  | JBool bool
  | JInt int
  | JNum real
  | JStr string
  | JArr "json list"
  | JObj "(string \<times> json) list"

text \<open>\<^verbatim>\<open>j.contains(key)\<close>: only an object contains keys.\<close>

fun contains :: "json \<Rightarrow> string \<Rightarrow> bool" where
  "contains (JObj kvs) k = (map_of kvs k \<noteq> None)"
| "contains _ k = False"

text \<open>\<^verbatim>\<open>j.size()\<close> and \<^verbatim>\<open>j.empty()\<close>: null has size 0, a scalar size 1.\<close>

fun json_size :: "json \<Rightarrow> nat" where
  "json_size JNull = 0"
| "json_size (JArr xs) = length xs"
| "json_size (JObj kvs) = length kvs"
| "json_size _ = 1"

definition json_empty :: "json \<Rightarrow> bool" where
  "json_empty j = (json_size j = 0)"

text \<open>
  \<^verbatim>\<open>j[key]\<close> on a document that may be modified (a local copy): a missing key reads as
  null, and null itself behaves as the empty object.
\<close>

fun idx :: "json \<Rightarrow> string \<Rightarrow> error + json" where
  "idx (JObj kvs) k = (case map_of kvs k of Some v \<Rightarrow> Inr v | None \<Rightarrow> Inr JNull)"
| "idx JNull k = Inr JNull"
| "idx _ k = Inl type_error"

text \<open>\<^verbatim>\<open>j[key]\<close> on a constant document: the key has to be there.\<close>

fun idx_const :: "json \<Rightarrow> string \<Rightarrow> error + json" where
  "idx_const (JObj kvs) k =
     (case map_of kvs k of Some v \<Rightarrow> Inr v | None \<Rightarrow> Inl undefined_behaviour)"
| "idx_const _ k = Inl type_error"

text \<open>\<^verbatim>\<open>j.at(key)\<close>: a missing key is an \<^verbatim>\<open>out_of_range\<close> exception.\<close>

fun at_key :: "json \<Rightarrow> string \<Rightarrow> error + json" where
  "at_key (JObj kvs) k = (case map_of kvs k of Some v \<Rightarrow> Inr v | None \<Rightarrow> Inl out_of_range)"
| "at_key _ k = Inl type_error"

text \<open>
  The implicit conversions of a JSON value to \<^verbatim>\<open>double\<close>, \<^verbatim>\<open>std::string\<close> and \<^verbatim>\<open>int\<close>.
  A number of either kind converts to \<^verbatim>\<open>double\<close> and to \<^verbatim>\<open>int\<close>, a boolean to \<^verbatim>\<open>int\<close>
  only; every other conversion throws.
\<close>

fun get_double :: "json \<Rightarrow> error + real" where
  "get_double (JNum x) = Inr x"
| "get_double (JInt i) = Inr (real_of_int i)"
| "get_double _ = Inl type_error"

fun get_string :: "json \<Rightarrow> error + string" where
  "get_string (JStr s) = Inr s"
| "get_string _ = Inl type_error"

text \<open>
  \<^verbatim>\<open>static_cast<int>\<close> of a \<^verbatim>\<open>double\<close>, which is also what \<^verbatim>\<open>cast<int>()\<close> of an Eigen
  array does entry by entry: the fraction is dropped (rounding toward zero).  An \<^verbatim>\<open>int\<close>
  has 32 bits.  When the truncated value is not in \<open>-2\<^sup>3\<^sup>1 .. 2\<^sup>3\<^sup>1 - 1\<close> the conversion is
  outside what C++ defines; the conversion instruction of x86-64 then gives
  \<^verbatim>\<open>INT_MIN\<close>, and so does \<open>cast_int\<close>.
\<close>

definition cast_int :: "real \<Rightarrow> int" where
  "cast_int x =
     (if - 2147483649 < x \<and> x < 2147483648 then (if 0 \<le> x then \<lfloor>x\<rfloor> else \<lceil>x\<rceil>)
      else - 2147483648)"

text \<open>\<^verbatim>\<open>static_cast<int>\<close> of a 64-bit integer keeps the low 32 bits, read as signed.\<close>

definition wrap_int :: "int \<Rightarrow> int" where
  "wrap_int i = (i + 2147483648) mod 4294967296 - 2147483648"

fun get_int :: "json \<Rightarrow> error + int" where
  "get_int (JNum x) = Inr (cast_int x)"
| "get_int (JInt i) = Inr (wrap_int i)"
| "get_int (JBool b) = Inr (if b then 1 else 0)"
| "get_int _ = Inl type_error"

text \<open>
  The elements a range-based \<^verbatim>\<open>for\<close> visits: those of an array, the member values of
  an object, none for null, the value itself for a scalar.
\<close>

fun items :: "json \<Rightarrow> json list" where
  "items (JArr xs) = xs"
| "items (JObj kvs) = map snd kvs"
| "items JNull = []"
| "items j = [j]"

section \<open>Binary-parameter resolution\<close>

text \<open>
  \<^verbatim>\<open>::toupper\<close> in the C locale: the letters \<open>a\<close> to \<open>z\<close> lose bit 5
  (\<^verbatim>\<open>0x20\<close>), every other character stays.
\<close>

definition toupper_char :: "char \<Rightarrow> char" where
  "toupper_char c =
     (if CHR ''a'' \<le> c \<and> c \<le> CHR ''z''
      then (case c of Char b0 b1 b2 b3 b4 b5 b6 b7 \<Rightarrow> Char b0 b1 b2 b3 b4 False b6 b7)
      else c)"

definition toupper :: "string \<Rightarrow> string" where
  "toupper s = map toupper_char s"

text \<open>The object \<^verbatim>\<open>get_BIPdep\<close> returns when the flags hold the key \<open>estimate\<close>.\<close>

definition estimated_BIP :: json where
  "estimated_BIP = JObj [(''betaT'', JNum 1), (''gammaT'', JNum 1), (''betaV'', JNum 1),
     (''gammaV'', JNum 1), (''F'', JNum 0)]"

text \<open>
  The loop of \<^verbatim>\<open>get_BIPdep\<close> over the records of the collection: the first record
  whose upper-cased names are the upper-cased pair, in either order, is returned; when
  the records run out, the function throws.
\<close>

fun match_pair :: "string \<Rightarrow> string \<Rightarrow> json list \<Rightarrow> error + json" where
  "match_pair comp0 comp1 [] = Inl (invalid_argument ''Can't match this binary pair'')"
| "match_pair comp0 comp1 (el # els) =
     (case ebind (idx_const el ''Name1'') get_string of
        Inl e \<Rightarrow> Inl e
      | Inr s1 \<Rightarrow>
         (case ebind (idx_const el ''Name2'') get_string of
            Inl e \<Rightarrow> Inl e
          | Inr s2 \<Rightarrow>
             (let name1 = toupper s1; name2 = toupper s2 in
              if comp0 = name1 \<and> comp1 = name2 then Inr el
              else if comp0 = name2 \<and> comp1 = name1 then Inr el
              else match_pair comp0 comp1 els)))"

text \<open>
  \<^verbatim>\<open>MultiFluidReducingFunction::get_BIPdep(collection, components, flags)\<close>.  Every
  caller passes a two-element vector; reading \<^verbatim>\<open>components[1]\<close> of a shorter one is
  undefined.
\<close>

definition get_BIPdep :: "json \<Rightarrow> string list \<Rightarrow> json \<Rightarrow> error + json" where
  "get_BIPdep collection components flags =
     (if contains flags ''estimate'' then Inr estimated_BIP
      else if length components < 2 then Inl undefined_behaviour
      else match_pair (toupper (components ! 0)) (toupper (components ! 1)) (items collection))"

text \<open>
  \<^verbatim>\<open>get_binary_interaction_double\<close>: the four parameters of the resolved record, with
  \<open>betaT\<close> and \<open>betaV\<close> inverted when the pair is the record's names backwards.  The
  comparison with the record's names is that of the strings as they are.
\<close>

definition field_double :: "json \<Rightarrow> string \<Rightarrow> error + real" where
  "field_double el k = ebind (idx el k) get_double"

definition get_binary_interaction_double ::
  "json \<Rightarrow> string list \<Rightarrow> json \<Rightarrow> error + (real \<times> real \<times> real \<times> real)" where
  "get_binary_interaction_double collection components flags =
     ebind (get_BIPdep collection components flags) (\<lambda>el.
     ebind (field_double el ''betaT'') (\<lambda>betaT.
     ebind (field_double el ''gammaT'') (\<lambda>gammaT.
     ebind (field_double el ''betaV'') (\<lambda>betaV.
     ebind (field_double el ''gammaV'') (\<lambda>gammaV.
       if length components < 2 then Inl undefined_behaviour
       else if idx el ''Name2'' = Inr (JStr (components ! 0))
             \<and> idx el ''Name1'' = Inr (JStr (components ! 1))
       then Inr (1 / betaT, gammaT, 1 / betaV, gammaV)
       else Inr (betaT, gammaT, betaV, gammaV))))))"

text \<open>
  What the specification calls a record that matches a pair: its two names are the
  pair's, in either order, up to the case of the letters.  \<open>named_record\<close> says that a
  record carries both names as strings.
\<close>

definition record_names :: "json \<Rightarrow> (string \<times> string) option" where
  "record_names el =
     (case (idx_const el ''Name1'', idx_const el ''Name2'') of
        (Inr (JStr n1), Inr (JStr n2)) \<Rightarrow> Some (n1, n2)
      | _ \<Rightarrow> None)"


definition record_matches :: "json \<Rightarrow> string \<Rightarrow> string \<Rightarrow> bool" where
  "record_matches el a b =
     (case record_names el of
        None \<Rightarrow> False
      | Some (n1, n2) \<Rightarrow>
          (toupper a = toupper n1 \<and> toupper b = toupper n2)
        \<or> (toupper a = toupper n2 \<and> toupper b = toupper n1))"

section \<open>Loops\<close>

text \<open>
  A counted \<^verbatim>\<open>for\<close> loop over \<open>[a..<b]\<close> whose body cannot throw is \<^const>\<open>fold\<close> of
  the body over the index list.  A body that can throw is run by \<open>for_each\<close>, which
  stops at the first exception as the C++ loop does.
\<close>

fun for_each :: "'a list \<Rightarrow> ('a \<Rightarrow> 's \<Rightarrow> error + 's) \<Rightarrow> 's \<Rightarrow> error + 's" where
  "for_each [] body s = Inr s"
| "for_each (x # xs) body s =
     (case body x s of Inl e \<Rightarrow> Inl e | Inr s' \<Rightarrow> for_each xs body s')"

text \<open>
  A dense \<^verbatim>\<open>Eigen::MatrixXd\<close> (and a \<^verbatim>\<open>vector<vector<...>>\<close> used as a square table) is
  a function of the row and column index; the code only reads and writes entries inside
  the \<open>N \<times> N\<close> block it has allocated.  \<open>set_entry M i j v\<close> is the assignment
  \<^verbatim>\<open>M(i, j) = v\<close>; \<^verbatim>\<open>setZero\<close> gives \<open>zeros\<close> and \<^verbatim>\<open>setOnes\<close> gives \<open>ones\<close>.
\<close>

type_synonym matrix = "nat \<Rightarrow> nat \<Rightarrow> real"

definition set_entry :: "(nat \<Rightarrow> nat \<Rightarrow> 'a) \<Rightarrow> nat \<Rightarrow> nat \<Rightarrow> 'a \<Rightarrow> (nat \<Rightarrow> nat \<Rightarrow> 'a)" where
  "set_entry M i j v = M(i := (M i)(j := v))"

definition zeros :: matrix where
  "zeros = (\<lambda>i j. 0)"

definition ones :: matrix where
  "ones = (\<lambda>i j. 1)"

section \<open>The reducing function\<close>

definition square :: "real \<Rightarrow> real" where
  "square x = x * x"

definition cube :: "real \<Rightarrow> real" where
  "cube x = x * x * x"

text \<open>\<^verbatim>\<open>cbrt\<close> is the real cube root, negative for a negative argument.\<close>

definition cbrt :: "real \<Rightarrow> real" where
  "cbrt x = root 3 x"

record MultiFluidReducingFunction =
  YT :: matrix
  Yv :: matrix
  betaT :: matrix
  gammaT :: matrix
  betaV :: matrix
  gammaV :: matrix
  Tc :: "real list"
  vc :: "real list"

text \<open>
  The body of the constructor: for every pair \<open>i < j < N\<close> the four assignments to
  \<open>YT(i, j)\<close>, \<open>YT(j, i)\<close>, \<open>Yv(i, j)\<close> and \<open>Yv(j, i)\<close>, in this order.
\<close>

definition precompute_pair ::
  "matrix \<Rightarrow> matrix \<Rightarrow> matrix \<Rightarrow> matrix \<Rightarrow> real list \<Rightarrow> real list \<Rightarrow> nat \<Rightarrow> nat
     \<Rightarrow> matrix \<times> matrix \<Rightarrow> matrix \<times> matrix" where
  "precompute_pair bT gT bV gV Tcs vcs i j = (\<lambda>(yt, yv).
     (let yt = set_entry yt i j (bT i j * gT i j * sqrt (Tcs ! i * Tcs ! j));
          yt = set_entry yt j i (bT j i * gT j i * sqrt (Tcs ! i * Tcs ! j));
          yv = set_entry yv i j (1 / 8 * bV i j * gV i j * cube (cbrt (vcs ! i) + cbrt (vcs ! j)));
          yv = set_entry yv j i (1 / 8 * bV j i * gV j i * cube (cbrt (vcs ! i) + cbrt (vcs ! j)))
      in (yt, yv)))"

text \<open>
  \<^verbatim>\<open>MultiFluidReducingFunction(betaT, gammaT, betaV, gammaV, Tc, vc)\<close>, with
  \<open>N = Tc.size()\<close>.
\<close>

definition new_MultiFluidReducingFunction ::
  "matrix \<Rightarrow> matrix \<Rightarrow> matrix \<Rightarrow> matrix \<Rightarrow> real list \<Rightarrow> real list \<Rightarrow> MultiFluidReducingFunction" where
  "new_MultiFluidReducingFunction bT gT bV gV Tcs vcs =
     (let N = length Tcs;
          (yt, yv) = fold (\<lambda>i. fold (precompute_pair bT gT bV gV Tcs vcs i) [Suc i..<N])
                       [0..<N] (zeros, zeros)
      in \<lparr>YT = yt, Yv = yv, betaT = bT, gammaT = gT, betaV = bV, gammaV = gV,
          Tc = Tcs, vc = vcs\<rparr>)"

text \<open>
  \<^verbatim>\<open>Y(z, Yc, beta, Yij)\<close>.  \<open>N\<close> is an \<^verbatim>\<open>Eigen::Index\<close>, so \<open>N - 1\<close> for the empty
  composition is \<open>-1\<close> and the second loop does not run; the truncated subtraction of
  \<^typ>\<open>nat\<close> gives the same index list.
\<close>

definition Y :: "real list \<Rightarrow> real list \<Rightarrow> matrix \<Rightarrow> matrix \<Rightarrow> real" where
  "Y z Yc beta Yij =
     (let N = length z;
          sum1 = fold (\<lambda>i sum1. sum1 + square (z ! i) * Yc ! i) [0..<N] 0;
          sum2 = fold (\<lambda>i. fold (\<lambda>j sum2.
                   sum2 + 2 * z ! i * z ! j * (z ! i + z ! j)
                            / (square (beta i j) * z ! i + z ! j) * Yij i j) [Suc i..<N])
                   [0..<N - 1] 0
      in sum1 + sum2)"

definition MultiFluidReducingFunction_get_Tr :: "MultiFluidReducingFunction \<Rightarrow> real list \<Rightarrow> real" where
  "MultiFluidReducingFunction_get_Tr rf molefracs = Y molefracs (Tc rf) (betaT rf) (YT rf)"

definition MultiFluidReducingFunction_get_rhor :: "MultiFluidReducingFunction \<Rightarrow> real list \<Rightarrow> real" where
  "MultiFluidReducingFunction_get_rhor rf molefracs = 1 / Y molefracs (vc rf) (betaV rf) (Yv rf)"

section \<open>The contributions and the mixture model\<close>

text \<open>
  \<^verbatim>\<open>CorrespondingStatesContribution\<close>, \<^verbatim>\<open>DepartureContribution\<close> and
  \<^verbatim>\<open>MultiFluid\<close> are class templates.  Their type arguments are type variables here,
  and what the templates call on them (\<^verbatim>\<open>get_Tr\<close>, \<^verbatim>\<open>get_rhor\<close> of the reducing
  function, \<^verbatim>\<open>alphar(tau, delta)\<close> of a pure-fluid and of a departure term
  collection) is the record of methods an instantiation supplies.
\<close>

record ('r, 'e, 'f) methods =
  get_Tr :: "'r \<Rightarrow> real list \<Rightarrow> real"
  get_rhor :: "'r \<Rightarrow> real list \<Rightarrow> real"
  EOS_alphar :: "'e \<Rightarrow> real \<Rightarrow> real \<Rightarrow> real"
  dep_alphar :: "'f \<Rightarrow> real \<Rightarrow> real \<Rightarrow> real"

definition CorrespondingStatesContribution_alphar ::
  "('e \<Rightarrow> real \<Rightarrow> real \<Rightarrow> real) \<Rightarrow> 'e list \<Rightarrow> real \<Rightarrow> real \<Rightarrow> real list \<Rightarrow> real" where
  "CorrespondingStatesContribution_alphar EOS_alphar_of EOSs tau delta molefracs =
     (let N = length molefracs in
      fold (\<lambda>i alphar. alphar + molefracs ! i * EOS_alphar_of (EOSs ! i) tau delta) [0..<N] 0)"


record 'f DepartureContribution =
  F :: matrix
  funcs :: "nat \<Rightarrow> nat \<Rightarrow> 'f"

definition DepartureContribution_alphar ::
  "('f \<Rightarrow> real \<Rightarrow> real \<Rightarrow> real) \<Rightarrow> 'f DepartureContribution \<Rightarrow> real \<Rightarrow> real \<Rightarrow> real list \<Rightarrow> real" where
  "DepartureContribution_alphar dep_alphar_of d tau delta molefracs =
     (let N = length molefracs in
      fold (\<lambda>i. fold (\<lambda>j alphar.
              alphar + molefracs ! i * molefracs ! j * F d i j * dep_alphar_of (funcs d i j) tau delta)
              [Suc i..<N])
        [0..<N] 0)"

record ('r, 'e, 'f) MultiFluid =
  meta :: string
  redfunc :: 'r
  corr :: "'e list"
  dep :: "'f DepartureContribution"

text \<open>\<^verbatim>\<open>MultiFluid::alphar(T, rho, molefrac)\<close>; \<^verbatim>\<open>forceeval\<close> is the identity on numbers.\<close>

definition MultiFluid_alphar ::
  "('r, 'e, 'f) methods \<Rightarrow> ('r, 'e, 'f) MultiFluid \<Rightarrow> real \<Rightarrow> real \<Rightarrow> real list \<Rightarrow> real" where
  "MultiFluid_alphar I model T rho molefrac =
     (let Tred = get_Tr I (redfunc model) molefrac;
          rhored = get_rhor I (redfunc model) molefrac;
          delta = rho / rhored;
          tau = Tred / T;
          val = CorrespondingStatesContribution_alphar (EOS_alphar I) (corr model) tau delta molefrac
                + DepartureContribution_alphar (dep_alphar I) (dep model) tau delta molefrac
      in val)"

text \<open>
  \<^verbatim>\<open>MultiFluid::alphar(T, rhovec, rhotot)\<close> with the optional total density:
  \<^verbatim>\<open>std::accumulate\<close> adds the entries from the left, starting at \<open>0\<close>, and the
  division of the vector by the total is entry by entry.
\<close>

definition MultiFluid_alphar_rhovec ::
  "('r, 'e, 'f) methods \<Rightarrow> ('r, 'e, 'f) MultiFluid \<Rightarrow> real \<Rightarrow> real list \<Rightarrow> real option \<Rightarrow> real" where
  "MultiFluid_alphar_rhovec I model T rhovec rhotot =
     (let rhotot' = (case rhotot of Some r \<Rightarrow> r | None \<Rightarrow> fold (\<lambda>x acc. acc + x) rhovec 0);
          molefrac = map (\<lambda>r. r / rhotot') rhovec
      in MultiFluid_alphar I model T rhotot' molefrac)"

section \<open>Term records and term construction\<close>

text \<open>
  Modelled from the spec: the term structures of \<^verbatim>\<open>multifluid_eosterms.hpp\<close>, which the
  header includes and which is not among the sources.  Each term holds the coefficient
  arrays its builder assigns, here in the order
  \<^item> \<open>PowerEOSTerm n t d c l l_i\<close>,
  \<^item> \<open>GaussianEOSTerm n t d eta beta gamma epsilon\<close> (and \<open>GERG2004EOSTerm\<close> alike),
  \<^item> \<open>Lemmon2005EOSTerm n t d m l l_i\<close>,
  \<^item> \<open>ExponentialEOSTerm n t d g l l_i\<close>,
  \<^item> \<open>GaoBEOSTerm n t d eta beta gamma epsilon b\<close>,
  \<^item> \<open>NonAnalyticEOSTerm n A B C D a b beta\<close>,
  \<^item> \<open>NullEOSTerm\<close>, the term that is zero everywhere.

  A term container (\<^verbatim>\<open>EOSTerms\<close>, \<^verbatim>\<open>DepartureTerms\<close>) is the list of its terms;
  \<^verbatim>\<open>add_term\<close> appends.
\<close>

datatype EOSTerm =
    PowerEOSTerm "real list" "real list" "real list" "real list" "real list" "int list"
  | GaussianEOSTerm "real list" "real list" "real list" "real list" "real list" "real list" "real list"
  | GERG2004EOSTerm "real list" "real list" "real list" "real list" "real list" "real list" "real list"
  | Lemmon2005EOSTerm "real list" "real list" "real list" "real list" "real list" "int list"
  | ExponentialEOSTerm "real list" "real list" "real list" "real list" "real list" "int list"
  | GaoBEOSTerm "real list" "real list" "real list" "real list" "real list" "real list" "real list" "real list"
  | NonAnalyticEOSTerm "real list" "real list" "real list" "real list" "real list" "real list" "real list" "real list"
  | NullEOSTerm

type_synonym DepartureTerms = "EOSTerm list"

type_synonym EOSTerms = "EOSTerm list"

definition add_term :: "EOSTerm list \<Rightarrow> EOSTerm \<Rightarrow> EOSTerm list" where
  "add_term container term = container @ [term]"

text \<open>
  Modelled from the spec: the helper \<^verbatim>\<open>toeig\<close> of the same missing header turns a JSON
  array of numbers into an array of doubles; anything else is a conversion error.
\<close>

fun json_number :: "json \<Rightarrow> real option" where
  "json_number (JNum x) = Some x"
| "json_number (JInt i) = Some (real_of_int i)"
| "json_number _ = None"

fun toeig :: "json \<Rightarrow> error + real list" where
  "toeig (JArr xs) = (case those (map json_number xs) of Some v \<Rightarrow> Inr v | None \<Rightarrow> Inl type_error)"
| "toeig _ = Inl type_error"

text \<open>
  Modelled from the spec: the helper \<^verbatim>\<open>all_same_length(term, keys)\<close> of the missing
  header says whether the named members of the record all have one size; a member that
  is absent has the size of null.
\<close>

fun member_or_null :: "json \<Rightarrow> string \<Rightarrow> json" where
  "member_or_null (JObj kvs) k = (case map_of kvs k of Some v \<Rightarrow> v | None \<Rightarrow> JNull)"
| "member_or_null _ k = JNull"

definition all_same_length :: "json \<Rightarrow> string list \<Rightarrow> bool" where
  "all_same_length j ks = (length (remdups (map (\<lambda>k. json_size (member_or_null j k)) ks)) = 1)"

text \<open>
  \<^verbatim>\<open>v.head(k)\<close> and \<^verbatim>\<open>v.tail(k)\<close> of an Eigen array: the first and the last \<open>k\<close>
  entries; \<open>k\<close> outside \<open>0..size\<close> is outside what Eigen defines.
\<close>

definition head :: "real list \<Rightarrow> int \<Rightarrow> error + real list" where
  "head v k = (if 0 \<le> k \<and> k \<le> int (length v) then Inr (take (nat k) v)
               else Inl undefined_behaviour)"

definition tail :: "real list \<Rightarrow> int \<Rightarrow> error + real list" where
  "tail v k = (if 0 \<le> k \<and> k \<le> int (length v) then Inr (drop (length v - nat k) v)
               else Inl undefined_behaviour)"

text \<open>
  \<^verbatim>\<open>((l_i.cast<double>() - l).cwiseAbs() > 0.0).any()\<close>: some entry of \<open>l\<close> differs from
  its truncation to an \<^verbatim>\<open>int\<close>.
\<close>

definition any_non_integer :: "real list \<Rightarrow> bool" where
  "any_non_integer l = list_ex (\<lambda>x. \<bar>real_of_int (cast_int x) - x\<bar> > 0) l"

text \<open>
  The loop \<^verbatim>\<open>for (i = 0; i < c.size(); ++i) if (l[i] > 0) c[i] = 1.0\<close> over the zeroed
  array \<open>c\<close> of size \<open>N\<close>; it reads past the end of a shorter \<open>l\<close>.
\<close>

definition c_from_l :: "nat \<Rightarrow> real list \<Rightarrow> error + real list" where
  "c_from_l N l = (if length l < N then Inl undefined_behaviour
                   else Inr (map (\<lambda>i. if l ! i > 0 then 1 else 0) [0..<N]))"

text \<open>The lambda \<^verbatim>\<open>eigorzero\<close> of both \<^verbatim>\<open>build_power\<close> lambdas.\<close>

definition eigorzero :: "json \<Rightarrow> nat \<Rightarrow> string \<Rightarrow> error + real list" where
  "eigorzero term N name =
     ebind (idx term name) (\<lambda>v. if \<not> json_empty v then toeig v else Inr (replicate N 0))"

text \<open>A member of a record that may be modified, converted by \<^verbatim>\<open>toeig\<close>.\<close>

definition field_eig :: "json \<Rightarrow> string \<Rightarrow> error + real list" where
  "field_eig term name = ebind (idx term name) toeig"

text \<open>The same for a constant record.\<close>

definition field_eig_const :: "json \<Rightarrow> string \<Rightarrow> error + real list" where
  "field_eig_const term name = ebind (idx_const term name) toeig"

subsection \<open>\<^verbatim>\<open>build_departure_function\<close>\<close>

text \<open>The lambda \<^verbatim>\<open>build_power\<close> of \<^verbatim>\<open>build_departure_function\<close>.\<close>

definition dep_build_power :: "json \<Rightarrow> error + EOSTerm" where
  "dep_build_power term =
     ebind (idx term ''n'') (\<lambda>jn. let N = json_size jn in
     ebind (eigorzero term N ''n'') (\<lambda>n.
     ebind (eigorzero term N ''t'') (\<lambda>t.
     ebind (eigorzero term N ''d'') (\<lambda>d.
     ebind (idx term ''l'') (\<lambda>jl.
     ebind (if json_empty jl then
              (if \<not> all_same_length term [''n'', ''t'', ''d'']
               then Inl (invalid_argument ''Lengths are not all identical in polynomial term'')
               else Inr (replicate N 0, replicate N 0))
            else
              (if \<not> all_same_length term [''n'', ''t'', ''d'', ''l'']
               then Inl (invalid_argument ''Lengths are not all identical in exponential term'')
               else ebind (toeig jl) (\<lambda>l. ebind (c_from_l N l) (\<lambda>c. Inr (c, l)))))
       (\<lambda>(c, l).
          let l_i = map cast_int l in
          if any_non_integer l then Inl (invalid_argument ''Non-integer entry in l found'')
          else Inr (PowerEOSTerm n t d c l l_i)))))))"

text \<open>
  The power part that \<^verbatim>\<open>build_GERG2004\<close> and \<^verbatim>\<open>build_GaussianExponential\<close> share
  line by line: the first \<open>Npower\<close> entries of \<open>n\<close>, \<open>t\<close>, \<open>d\<close> and, when the record has
  it, of \<open>l\<close>.
\<close>

definition composite_power_part :: "json \<Rightarrow> int \<Rightarrow> error + EOSTerm" where
  "composite_power_part term Npower =
     ebind (ebind (field_eig_const term ''n'') (\<lambda>v. head v Npower)) (\<lambda>n.
     ebind (ebind (field_eig_const term ''t'') (\<lambda>v. head v Npower)) (\<lambda>t.
     ebind (ebind (field_eig_const term ''d'') (\<lambda>v. head v Npower)) (\<lambda>d.
     ebind (if contains term ''l''
            then ebind (field_eig_const term ''l'') (\<lambda>v. head v Npower)
            else Inr (map (\<lambda>x. 0 * x) n)) (\<lambda>l.
       let c = map (\<lambda>x. if x > 0 then 1 else 0) l;
           l_i = map cast_int l
       in Inr (PowerEOSTerm n t d c l l_i)))))"

text \<open>
  The Gaussian part of both composite builders: the last \<open>NGauss\<close> entries of the seven
  arrays, read in the order of the source and handed to the term's constructor.
\<close>

definition composite_gaussian_part ::
  "json \<Rightarrow> int
     \<Rightarrow> (real list \<Rightarrow> real list \<Rightarrow> real list \<Rightarrow> real list \<Rightarrow> real list \<Rightarrow> real list \<Rightarrow> real list \<Rightarrow> EOSTerm)
     \<Rightarrow> error + EOSTerm" where
  "composite_gaussian_part term NGauss mk =
     ebind (ebind (field_eig_const term ''n'') (\<lambda>v. tail v NGauss)) (\<lambda>n.
     ebind (ebind (field_eig_const term ''t'') (\<lambda>v. tail v NGauss)) (\<lambda>t.
     ebind (ebind (field_eig_const term ''d'') (\<lambda>v. tail v NGauss)) (\<lambda>d.
     ebind (ebind (field_eig_const term ''eta'') (\<lambda>v. tail v NGauss)) (\<lambda>eta.
     ebind (ebind (field_eig_const term ''beta'') (\<lambda>v. tail v NGauss)) (\<lambda>beta.
     ebind (ebind (field_eig_const term ''gamma'') (\<lambda>v. tail v NGauss)) (\<lambda>gamma.
     ebind (ebind (field_eig_const term ''epsilon'') (\<lambda>v. tail v NGauss)) (\<lambda>epsilon.
       Inr (mk n t d eta beta gamma epsilon))))))))"

definition build_GERG2004 :: "json \<Rightarrow> DepartureTerms \<Rightarrow> error + DepartureTerms" where
  "build_GERG2004 term dep0 =
     (if \<not> all_same_length term [''n'', ''t'', ''d'', ''eta'', ''beta'', ''gamma'', ''epsilon'']
      then Inl (invalid_argument ''Lengths are not all identical in GERG term'')
      else
        ebind (ebind (idx_const term ''Npower'') get_int) (\<lambda>Npower.
        ebind (idx_const term ''n'') (\<lambda>jn. let NGERG = int (json_size jn) - Npower in
        ebind (composite_power_part term Npower) (\<lambda>eos.
          let dep1 = add_term dep0 eos in
          ebind (composite_gaussian_part term NGERG GERG2004EOSTerm) (\<lambda>e.
            Inr (add_term dep1 e))))))"

definition build_GaussianExponential :: "json \<Rightarrow> DepartureTerms \<Rightarrow> error + DepartureTerms" where
  "build_GaussianExponential term dep0 =
     (if \<not> all_same_length term [''n'', ''t'', ''d'', ''eta'', ''beta'', ''gamma'', ''epsilon'']
      then Inl (invalid_argument ''Lengths are not all identical in Gaussian+Exponential term'')
      else
        ebind (ebind (idx_const term ''Npower'') get_int) (\<lambda>Npower.
        ebind (idx_const term ''n'') (\<lambda>jn. let NGauss = int (json_size jn) - Npower in
        ebind (composite_power_part term Npower) (\<lambda>eos.
          let dep1 = add_term dep0 eos in
          ebind (composite_gaussian_part term NGauss GaussianEOSTerm) (\<lambda>e.
            Inr (add_term dep1 e))))))"

definition build_departure_function :: "json \<Rightarrow> error + DepartureTerms" where
  "build_departure_function j =
     ebind (ebind (idx_const j ''type'') get_string) (\<lambda>type.
       if type = ''Exponential'' then ebind (dep_build_power j) (\<lambda>eos. Inr (add_term [] eos))
       else if type = ''GERG-2004'' \<or> type = ''GERG-2008'' then build_GERG2004 j []
       else if type = ''Gaussian+Exponential'' then build_GaussianExponential j []
       else if type = ''none'' then Inr (add_term [] NullEOSTerm)
       else Inl (invalid_argument (''Bad departure term type: '' @ type)))"

subsection \<open>\<^verbatim>\<open>get_EOS_terms\<close>\<close>

text \<open>
  \<^verbatim>\<open>get_EOS_terms\<close> reads the list \<^verbatim>\<open>j["EOS"][0]["alphar"]\<close> of a fluid file; the
  list is the argument \<open>alphar\<close> here.  Its lambdas take their record by value or by a
  reference to the local list, so a missing member reads as null.
\<close>

definition allowed_types :: "string list" where
  "allowed_types = [''ResidualHelmholtzPower'', ''ResidualHelmholtzGaussian'',
     ''ResidualHelmholtzNonAnalytic'', ''ResidualHelmholtzGaoB'',
     ''ResidualHelmholtzLemmon2005'', ''ResidualHelmholtzExponential'']"

definition isallowed :: "string list \<Rightarrow> string \<Rightarrow> bool" where
  "isallowed conventional_types name = list_ex (\<lambda>a. name = a) conventional_types"

definition bad_type_message :: "string \<Rightarrow> string" where
  "bad_type_message type =
     ''Bad type:'' @ type @ ''; allowed types are: {''
       @ fold (\<lambda>i a. a @ '','' @ allowed_types ! i) [1..<length allowed_types] (allowed_types ! 0)
       @ ''}''"

text \<open>The first loop: every record's type has to be an allowed one.\<close>

fun check_types :: "json list \<Rightarrow> error + unit" where
  "check_types [] = Inr ()"
| "check_types (term # terms) =
     (case ebind (idx term ''type'') get_string of
        Inl e \<Rightarrow> Inl e
      | Inr type \<Rightarrow>
          if \<not> isallowed allowed_types type then Inl (invalid_argument (bad_type_message type))
          else check_types terms)"

text \<open>
  The lambda \<^verbatim>\<open>build_power\<close> of \<^verbatim>\<open>get_EOS_terms\<close>.  It is the one of
  \<^verbatim>\<open>build_departure_function\<close> without the two calls of \<^verbatim>\<open>all_same_length\<close>.
\<close>

definition build_power :: "json \<Rightarrow> error + EOSTerm" where
  "build_power term =
     ebind (idx term ''n'') (\<lambda>jn. let N = json_size jn in
     ebind (eigorzero term N ''n'') (\<lambda>n.
     ebind (eigorzero term N ''t'') (\<lambda>t.
     ebind (eigorzero term N ''d'') (\<lambda>d.
     ebind (idx term ''l'') (\<lambda>jl.
     ebind (if json_empty jl then Inr (replicate N 0, replicate N 0)
            else ebind (toeig jl) (\<lambda>l. ebind (c_from_l N l) (\<lambda>c. Inr (c, l))))
       (\<lambda>(c, l).
          let l_i = map cast_int l in
          if any_non_integer l then Inl (invalid_argument ''Non-integer entry in l found'')
          else Inr (PowerEOSTerm n t d c l l_i)))))))"

definition build_Lemmon2005 :: "json \<Rightarrow> error + EOSTerm" where
  "build_Lemmon2005 term =
     ebind (field_eig term ''n'') (\<lambda>n.
     ebind (field_eig term ''t'') (\<lambda>t.
     ebind (field_eig term ''d'') (\<lambda>d.
     ebind (field_eig term ''m'') (\<lambda>m.
     ebind (field_eig term ''l'') (\<lambda>l.
       let l_i = map cast_int l in
       if \<not> all_same_length term [''n'', ''t'', ''d'', ''m'', ''l'']
       then Inl (invalid_argument ''Lengths are not all identical in Lemmon2005 term'')
       else if any_non_integer l then Inl (invalid_argument ''Non-integer entry in l found'')
       else Inr (Lemmon2005EOSTerm n t d m l l_i))))))"

definition build_gaussian :: "json \<Rightarrow> error + EOSTerm" where
  "build_gaussian term =
     ebind (field_eig term ''n'') (\<lambda>n.
     ebind (field_eig term ''t'') (\<lambda>t.
     ebind (field_eig term ''d'') (\<lambda>d.
     ebind (field_eig term ''eta'') (\<lambda>eta.
     ebind (field_eig term ''beta'') (\<lambda>beta.
     ebind (field_eig term ''gamma'') (\<lambda>gamma.
     ebind (field_eig term ''epsilon'') (\<lambda>epsilon.
       if \<not> all_same_length term [''n'', ''t'', ''d'', ''eta'', ''beta'', ''gamma'', ''epsilon'']
       then Inl (invalid_argument ''Lengths are not all identical in Gaussian term'')
       else Inr (GaussianEOSTerm n t d eta beta gamma epsilon))))))))"

definition build_exponential :: "json \<Rightarrow> error + EOSTerm" where
  "build_exponential term =
     ebind (field_eig term ''n'') (\<lambda>n.
     ebind (field_eig term ''t'') (\<lambda>t.
     ebind (field_eig term ''d'') (\<lambda>d.
     ebind (field_eig term ''g'') (\<lambda>g.
     ebind (field_eig term ''l'') (\<lambda>l.
       let l_i = map cast_int l in
       if \<not> all_same_length term [''n'', ''t'', ''d'', ''g'', ''l'']
       then Inl (invalid_argument ''Lengths are not all identical in exponential term'')
       else Inr (ExponentialEOSTerm n t d g l l_i))))))"

definition build_GaoB :: "json \<Rightarrow> error + EOSTerm" where
  "build_GaoB term =
     ebind (field_eig term ''n'') (\<lambda>n.
     ebind (field_eig term ''t'') (\<lambda>t.
     ebind (field_eig term ''d'') (\<lambda>d.
     ebind (field_eig term ''eta'') (\<lambda>eta0. let eta = map uminus eta0 in
     ebind (field_eig term ''beta'') (\<lambda>beta.
     ebind (field_eig term ''gamma'') (\<lambda>gamma.
     ebind (field_eig term ''epsilon'') (\<lambda>epsilon.
     ebind (field_eig term ''b'') (\<lambda>b.
       if \<not> all_same_length term
               [''n'', ''t'', ''d'', ''eta'', ''beta'', ''gamma'', ''epsilon'', ''b'']
       then Inl (invalid_argument ''Lengths are not all identical in GaoB term'')
       else Inr (GaoBEOSTerm n t d eta beta gamma epsilon b)))))))))"

definition build_na :: "json \<Rightarrow> error + EOSTerm" where
  "build_na term =
     ebind (field_eig term ''n'') (\<lambda>n.
     ebind (field_eig term ''A'') (\<lambda>A.
     ebind (field_eig term ''B'') (\<lambda>B.
     ebind (field_eig term ''C'') (\<lambda>C.
     ebind (field_eig term ''D'') (\<lambda>D.
     ebind (field_eig term ''a'') (\<lambda>a.
     ebind (field_eig term ''b'') (\<lambda>b.
     ebind (field_eig term ''beta'') (\<lambda>beta.
       if \<not> all_same_length term [''n'', ''A'', ''B'', ''C'', ''D'', ''a'', ''b'', ''beta'']
       then Inl (invalid_argument ''Lengths are not all identical in nonanalytic term'')
       else Inr (NonAnalyticEOSTerm n A B C D a b beta)))))))))"

text \<open>The second loop: the record is built by the builder of its type and appended.\<close>

definition build_term :: "json \<Rightarrow> EOSTerms \<Rightarrow> error + EOSTerms" where
  "build_term term container =
     ebind (ebind (idx term ''type'') get_string) (\<lambda>type.
       if type = ''ResidualHelmholtzPower''
         then ebind (build_power term) (\<lambda>eos. Inr (add_term container eos))
       else if type = ''ResidualHelmholtzGaussian''
         then ebind (build_gaussian term) (\<lambda>eos. Inr (add_term container eos))
       else if type = ''ResidualHelmholtzNonAnalytic''
         then ebind (build_na term) (\<lambda>eos. Inr (add_term container eos))
       else if type = ''ResidualHelmholtzLemmon2005''
         then ebind (build_Lemmon2005 term) (\<lambda>eos. Inr (add_term container eos))
       else if type = ''ResidualHelmholtzGaoB''
         then ebind (build_GaoB term) (\<lambda>eos. Inr (add_term container eos))
       else if type = ''ResidualHelmholtzExponential''
         then ebind (build_exponential term) (\<lambda>eos. Inr (add_term container eos))
       else Inl (invalid_argument (''Bad term type: '' @ type)))"

definition get_EOS_terms :: "json \<Rightarrow> error + EOSTerms" where
  "get_EOS_terms alphar =
     ebind (check_types (items alphar)) (\<lambda>_. for_each (items alphar) build_term [])"

section \<open>The matrices of a mixture and the model adapter\<close>

text \<open>
  \<^verbatim>\<open>get_BIP_matrices\<close>: the four parameter matrices, zero on the diagonal, with
  \<open>beta(j, i) = 1 / beta(i, j)\<close> and \<open>gamma(j, i) = gamma(i, j)\<close>.
\<close>

definition BIP_pair ::
  "json \<Rightarrow> string list \<Rightarrow> json \<Rightarrow> nat \<Rightarrow> nat
     \<Rightarrow> matrix \<times> matrix \<times> matrix \<times> matrix \<Rightarrow> error + matrix \<times> matrix \<times> matrix \<times> matrix" where
  "BIP_pair collection components flags i j = (\<lambda>(bT, gT, bV, gV).
     ebind (get_binary_interaction_double collection [components ! i, components ! j] flags)
       (\<lambda>(betaT', gammaT', betaV', gammaV').
          let bT = set_entry bT i j betaT';    bT = set_entry bT j i (1 / bT i j);
              gT = set_entry gT i j gammaT';   gT = set_entry gT j i (gT i j);
              bV = set_entry bV i j betaV';    bV = set_entry bV j i (1 / bV i j);
              gV = set_entry gV i j gammaV';   gV = set_entry gV j i (gV i j)
          in Inr (bT, gT, bV, gV)))"

definition get_BIP_matrices ::
  "json \<Rightarrow> string list \<Rightarrow> json \<Rightarrow> error + matrix \<times> matrix \<times> matrix \<times> matrix" where
  "get_BIP_matrices collection components flags =
     (let N = length components in
      for_each [0..<N] (\<lambda>i. for_each [Suc i..<N] (BIP_pair collection components flags i))
        (zeros, zeros, zeros, zeros))"

text \<open>
  \<^verbatim>\<open>get_F_matrix\<close>.  The matrix is allocated without initial values and every entry
  of its \<open>N \<times> N\<close> block is assigned; the model starts from \<open>zeros\<close>.
\<close>

definition F_pair :: "json \<Rightarrow> string list \<Rightarrow> json \<Rightarrow> nat \<Rightarrow> nat \<Rightarrow> matrix \<Rightarrow> error + matrix" where
  "F_pair collection components flags i j Fm =
     ebind (get_BIPdep collection [components ! i, components ! j] flags) (\<lambda>el.
       if json_empty el then Inr (set_entry (set_entry Fm i j 0) j i 0)
       else ebind (field_double el ''F'') (\<lambda>f. Inr (set_entry (set_entry Fm i j f) j i f)))"

definition get_F_matrix :: "json \<Rightarrow> string list \<Rightarrow> json \<Rightarrow> error + matrix" where
  "get_F_matrix collection components flags =
     (let N = length components in
      for_each [0..<N] (\<lambda>i Fm.
         for_each [Suc i..<N] (F_pair collection components flags i) (set_entry Fm i i 0))
        zeros)"

text \<open>
  \<^verbatim>\<open>get_departure_function_matrix\<close>.  The collection of departure functions is read
  from a file by the source and is the argument \<open>depcollection\<close> here.  The table starts
  with default-constructed (empty) term containers.
\<close>

fun get_departure_json :: "json list \<Rightarrow> string \<Rightarrow> error + json" where
  "get_departure_json [] Name = Inl (invalid_argument ''Bad argument'')"
| "get_departure_json (el # els) Name =
     (case idx el ''Name'' of
        Inl e \<Rightarrow> Inl e
      | Inr v \<Rightarrow> if v = JStr Name then Inr el else get_departure_json els Name)"

definition departure_pair ::
  "json \<Rightarrow> json \<Rightarrow> string list \<Rightarrow> json \<Rightarrow> nat \<Rightarrow> nat
     \<Rightarrow> (nat \<Rightarrow> nat \<Rightarrow> DepartureTerms) \<Rightarrow> error + (nat \<Rightarrow> nat \<Rightarrow> DepartureTerms)" where
  "departure_pair depcollection BIPcollection components flags i j fs =
     ebind (get_BIPdep BIPcollection [components ! i, components ! j] flags) (\<lambda>BIP.
     ebind (if contains BIP ''function'' then ebind (idx BIP ''function'') get_string
            else Inr []) (\<lambda>funcname.
       if funcname \<noteq> [] then
         ebind (get_departure_json (items depcollection) funcname) (\<lambda>jj.
         ebind (build_departure_function jj) (\<lambda>fij.
         ebind (build_departure_function jj) (\<lambda>fji.
           Inr (set_entry (set_entry fs i j fij) j i fji))))
       else
         (let fs = set_entry fs i j (add_term (fs i j) NullEOSTerm);
              fs = set_entry fs j i (add_term (fs j i) NullEOSTerm)
          in Inr fs)))"

definition get_departure_function_matrix ::
  "json \<Rightarrow> json \<Rightarrow> string list \<Rightarrow> json \<Rightarrow> error + (nat \<Rightarrow> nat \<Rightarrow> DepartureTerms)" where
  "get_departure_function_matrix depcollection BIPcollection components flags =
     (let N = length components in
      for_each [0..<N] (\<lambda>i.
         for_each [Suc i..<N] (departure_pair depcollection BIPcollection components flags i))
        (\<lambda>i j. []))"

subsection \<open>\<^verbatim>\<open>MultiFluidAdapter\<close> and \<^verbatim>\<open>build_multifluid_mutant\<close>\<close>

record ('r, 'f, 'b) MultiFluidAdapter =
  adapter_meta :: string
  base :: 'b
  adapter_redfunc :: 'r
  depfunc :: "'f DepartureContribution"

text \<open>
  \<^verbatim>\<open>MultiFluidAdapter::alphar(T, rho, molefrac)\<close>: the adapter's own reducing function
  and departure contribution, the corresponding-states contribution of the base model.
\<close>

definition MultiFluidAdapter_alphar ::
  "('r, 'e, 'f) methods \<Rightarrow> ('r, 'f, ('r0, 'e, 'f0) MultiFluid) MultiFluidAdapter
     \<Rightarrow> real \<Rightarrow> real \<Rightarrow> real list \<Rightarrow> real" where
  "MultiFluidAdapter_alphar I mfa T rho molefrac =
     (let Tred = get_Tr I (adapter_redfunc mfa) molefrac;
          rhored = get_rhor I (adapter_redfunc mfa) molefrac;
          delta = rho / rhored;
          tau = Tred / T;
          val = CorrespondingStatesContribution_alphar (EOS_alphar I) (corr (base mfa)) tau delta molefrac
                + DepartureContribution_alphar (dep_alphar I) (depfunc mfa) tau delta molefrac
      in val)"

text \<open>\<^verbatim>\<open>std::to_string\<close> of an index: its decimal digits.\<close>

function to_string :: "nat \<Rightarrow> string" where
  "to_string k = (if k < 10 then [''0123456789'' ! k]
                  else to_string (k div 10) @ [''0123456789'' ! (k mod 10)])"
  by pat_completeness auto
termination
  by (relation "measure id") auto

declare to_string.simps [simp del]

text \<open>
  The body of the double loop of \<^verbatim>\<open>build_multifluid_mutant\<close> for the indices
  \<open>i \<le> j\<close>; \<open>red\<close> is the copy of the base model's reducing function.  The state is
  the four parameter matrices, the matrix \<open>F\<close> and the table of departure functions.
\<close>

type_synonym mutant_state =
  "matrix \<times> matrix \<times> matrix \<times> matrix \<times> matrix \<times> (nat \<Rightarrow> nat \<Rightarrow> DepartureTerms)"

definition mutant_pair ::
  "MultiFluidReducingFunction \<Rightarrow> json \<Rightarrow> nat \<Rightarrow> nat \<Rightarrow> mutant_state \<Rightarrow> error + mutant_state" where
  "mutant_pair red jj i j = (\<lambda>(bT, gT, bV, gV, Fm, fs).
     if i = j then Inr (bT, gT, bV, gV, Fm, set_entry fs i i (add_term (fs i i) NullEOSTerm))
     else
       ebind (ebind (idx_const jj (to_string i)) (\<lambda>row. idx_const row (to_string j))) (\<lambda>entry.
       ebind (idx entry ''BIP'') (\<lambda>BIP.
       ebind (ebind (at_key BIP ''betaT'') get_double) (\<lambda>x.
         let bT = set_entry bT i j x; bT = set_entry bT j i (1 / betaT red i j) in
       ebind (ebind (at_key BIP ''betaV'') get_double) (\<lambda>x.
         let bV = set_entry bV i j x; bV = set_entry bV j i (1 / betaV red i j) in
       ebind (ebind (at_key BIP ''gammaT'') get_double) (\<lambda>x.
         let gT = set_entry gT i j x; gT = set_entry gT j i (gT i j) in
       ebind (ebind (at_key BIP ''gammaV'') get_double) (\<lambda>x.
         let gV = set_entry gV i j x; gV = set_entry gV j i (gV i j) in
       ebind (idx entry ''departure'') (\<lambda>dep'.
       ebind (ebind (at_key BIP ''Fij'') get_double) (\<lambda>x.
         let Fm = set_entry Fm i j x; Fm = set_entry Fm j i (Fm i j) in
       ebind (build_departure_function dep') (\<lambda>fij.
       ebind (build_departure_function dep') (\<lambda>fji.
         Inr (bT, gT, bV, gV, Fm, set_entry (set_entry fs i j fij) j i fji))))))))))))"

text \<open>
  \<^verbatim>\<open>build_multifluid_mutant(model, jj)\<close>.  \<open>dump\<close> stands for the serialisation
  \<^verbatim>\<open>jj.dump()\<close> that becomes the adapter's metadata.
\<close>

definition build_multifluid_mutant ::
  "(json \<Rightarrow> string) \<Rightarrow> (MultiFluidReducingFunction, 'e, 'f0) MultiFluid \<Rightarrow> json
     \<Rightarrow> error + (MultiFluidReducingFunction, DepartureTerms,
                  (MultiFluidReducingFunction, 'e, 'f0) MultiFluid) MultiFluidAdapter" where
  "build_multifluid_mutant dump model jj =
     (let red = redfunc model;
          N = length (Tc red)
      in ebind (for_each [0..<N] (\<lambda>i. for_each [i..<N] (mutant_pair red jj i))
                  (betaT red, gammaT red, betaV red, gammaV red, zeros, (\<lambda>i j. [])))
           (\<lambda>(bT, gT, bV, gV, Fm, fs).
              let newred = new_MultiFluidReducingFunction bT gT bV gV (Tc red) (vc red);
                  newdep = \<lparr>F = Fm, funcs = fs\<rparr>;
                  mfa = \<lparr>adapter_meta = [], base = model, adapter_redfunc = newred,
                         depfunc = newdep\<rparr>
              in Inr (mfa\<lparr>adapter_meta := dump jj\<rparr>)))"

subsection \<open>The invariant reducing function and its adapter\<close>

text \<open>
  \<^verbatim>\<open>MultiFluidInvariantReducingFunction\<close>.  Its members \<open>YT\<close>, \<open>Yv\<close>, \<open>Tc\<close>, \<open>vc\<close> carry
  the prefix \<open>inv_\<close> here, the names being taken by the asymmetric reducing function.
\<close>

record MultiFluidInvariantReducingFunction =
  inv_YT :: matrix
  inv_Yv :: matrix
  phiT :: matrix
  lambdaT :: matrix
  phiV :: matrix
  lambdaV :: matrix
  inv_Tc :: "real list"
  inv_vc :: "real list"

definition invariant_precompute_pair ::
  "real list \<Rightarrow> real list \<Rightarrow> nat \<Rightarrow> nat \<Rightarrow> matrix \<times> matrix \<Rightarrow> matrix \<times> matrix" where
  "invariant_precompute_pair Tcs vcs i j = (\<lambda>(yt, yv).
     (let yt = set_entry yt i j (sqrt (Tcs ! i * Tcs ! j));
          yt = set_entry yt j i (sqrt (Tcs ! i * Tcs ! j));
          yv = set_entry yv i j (1 / 8 * cube (cbrt (vcs ! i) + cbrt (vcs ! j)));
          yv = set_entry yv j i (1 / 8 * cube (cbrt (vcs ! i) + cbrt (vcs ! j)))
      in (yt, yv)))"

definition new_MultiFluidInvariantReducingFunction ::
  "matrix \<Rightarrow> matrix \<Rightarrow> matrix \<Rightarrow> matrix \<Rightarrow> real list \<Rightarrow> real list
     \<Rightarrow> MultiFluidInvariantReducingFunction" where
  "new_MultiFluidInvariantReducingFunction phT lT phV lV Tcs vcs =
     (let N = length Tcs;
          (yt, yv) = fold (\<lambda>i. fold (invariant_precompute_pair Tcs vcs i) [0..<N])
                       [0..<N] (zeros, zeros)
      in \<lparr>inv_YT = yt, inv_Yv = yv, phiT = phT, lambdaT = lT, phiV = phV, lambdaV = lV,
          inv_Tc = Tcs, inv_vc = vcs\<rparr>)"

definition Y_invariant :: "real list \<Rightarrow> matrix \<Rightarrow> matrix \<Rightarrow> matrix \<Rightarrow> real" where
  "Y_invariant z phi lambda Yij =
     (let N = length z in
      fold (\<lambda>i. fold (\<lambda>j sum.
              (let contrib = z ! i * z ! j * (phi i j + z ! j * lambda i j) * Yij i j
               in sum + contrib)) [0..<N])
        [0..<N] 0)"

definition MultiFluidInvariantReducingFunction_get_Tr ::
  "MultiFluidInvariantReducingFunction \<Rightarrow> real list \<Rightarrow> real" where
  "MultiFluidInvariantReducingFunction_get_Tr rf molefracs =
     Y_invariant molefracs (phiT rf) (lambdaT rf) (inv_YT rf)"

definition MultiFluidInvariantReducingFunction_get_rhor ::
  "MultiFluidInvariantReducingFunction \<Rightarrow> real list \<Rightarrow> real" where
  "MultiFluidInvariantReducingFunction_get_rhor rf molefracs =
     1 / Y_invariant molefracs (phiV rf) (lambdaV rf) (inv_Yv rf)"

text \<open>
  The body of the double loop of \<^verbatim>\<open>build_multifluid_mutant_invariant\<close>, and the
  function.  Before the loop \<open>phiT\<close> and \<open>phiV\<close> are set to ones and \<open>lambdaV\<close> to zero
  (the source zeroes \<open>lambdaV\<close> twice); \<open>lambdaT\<close> starts as the copy of the base model's
  \<open>gammaT\<close>.
\<close>

definition invariant_mutant_pair :: "json \<Rightarrow> nat \<Rightarrow> nat \<Rightarrow> mutant_state \<Rightarrow> error + mutant_state" where
  "invariant_mutant_pair jj i j = (\<lambda>(phT, lT, phV, lV, Fm, fs).
     if i = j then Inr (phT, lT, phV, lV, Fm, set_entry fs i i (add_term (fs i i) NullEOSTerm))
     else
       ebind (ebind (idx_const jj (to_string i)) (\<lambda>row. idx_const row (to_string j))) (\<lambda>entry.
       ebind (idx entry ''BIP'') (\<lambda>BIP.
       ebind (ebind (at_key BIP ''phiT'') get_double) (\<lambda>x.
         let phT = set_entry phT i j x; phT = set_entry phT j i (phT i j) in
       ebind (ebind (at_key BIP ''lambdaT'') get_double) (\<lambda>x.
         let lT = set_entry lT i j x; lT = set_entry lT j i (- lT i j) in
       ebind (ebind (at_key BIP ''phiV'') get_double) (\<lambda>x.
         let phV = set_entry phV i j x; phV = set_entry phV j i (phV i j) in
       ebind (ebind (at_key BIP ''lambdaV'') get_double) (\<lambda>x.
         let lV = set_entry lV i j x; lV = set_entry lV j i (- lV i j) in
       ebind (idx entry ''departure'') (\<lambda>dep'.
       ebind (ebind (at_key BIP ''Fij'') get_double) (\<lambda>x.
         let Fm = set_entry Fm i j x; Fm = set_entry Fm j i (Fm i j) in
       ebind (build_departure_function dep') (\<lambda>fij.
       ebind (build_departure_function dep') (\<lambda>fji.
         Inr (phT, lT, phV, lV, Fm, set_entry (set_entry fs i j fij) j i fji))))))))))))"

definition build_multifluid_mutant_invariant ::
  "(json \<Rightarrow> string) \<Rightarrow> (MultiFluidReducingFunction, 'e, 'f0) MultiFluid \<Rightarrow> json
     \<Rightarrow> error + (MultiFluidInvariantReducingFunction, DepartureTerms,
                  (MultiFluidReducingFunction, 'e, 'f0) MultiFluid) MultiFluidAdapter" where
  "build_multifluid_mutant_invariant dump model jj =
     (let red = redfunc model;
          N = length (Tc red)
      in if N \<noteq> 2 then Inl (invalid_argument
             ''Only binary mixtures are currently supported with invariant departure functions'')
         else
           ebind (for_each [0..<N] (\<lambda>i. for_each [i..<N] (invariant_mutant_pair jj i))
                    (ones, gammaT red, ones, zeros, zeros, (\<lambda>i j. [])))
             (\<lambda>(phT, lT, phV, lV, Fm, fs).
                let newred = new_MultiFluidInvariantReducingFunction phT lT phV lV (Tc red) (vc red);
                    newdep = \<lparr>F = Fm, funcs = fs\<rparr>;
                    mfa = \<lparr>adapter_meta = [], base = model, adapter_redfunc = newred,
                           depfunc = newdep\<rparr>
                in Inr (mfa\<lparr>adapter_meta := dump jj\<rparr>)))"

subsection \<open>Pure-component contributions at a state point\<close>



text \<open>The four parameters of a pair, read from the state of \<^verbatim>\<open>get_BIP_matrices\<close>.\<close>

definition BIP_entries ::
  "matrix \<times> matrix \<times> matrix \<times> matrix \<Rightarrow> nat \<Rightarrow> nat \<Rightarrow> real \<times> real \<times> real \<times> real" where
  "BIP_entries = (\<lambda>(bT, gT, bV, gV) p q. (bT p q, gT p q, bV p q, gV p q))"

subsection \<open>The dummy model of the header\<close>

text \<open>\<^verbatim>\<open>DummyEOS::alphar(tau, delta)\<close> returns \<open>tau * delta\<close>; the class has no state.\<close>

definition DummyEOS_alphar :: "unit \<Rightarrow> real \<Rightarrow> real \<Rightarrow> real" where
  "DummyEOS_alphar eos tau delta = tau * delta"

section \<open>Concrete documents and models\<close>

text \<open>
  The inputs at which the theorems below are evaluated: a catalog with one record for the
  pair \<open>(Ab, Cd)\<close> that names no departure function and has \<open>F = 1\<close>; a flags object with
  the key \<open>estimate\<close>; term records with arrays of different lengths or with the
  exponent \<open>3/2\<close>; a two-component model with dummy pure fluids whose pairwise parameters
  are all \<open>1\<close>; and an override document for its pair \<open>(0, 1)\<close>.
\<close>

definition catalog_AbCd :: json where
  "catalog_AbCd = JArr [JObj [(''Name1'', JStr ''Ab''), (''Name2'', JStr ''Cd''),
     (''betaT'', JNum 2), (''gammaT'', JNum 3), (''betaV'', JNum 4), (''gammaV'', JNum 5),
     (''F'', JNum 1), (''function'', JStr '''')]]"

definition estimate_flags :: json where
  "estimate_flags = JObj [(''estimate'', JStr ''Lorentz-Berthelot'')]"

definition offdiagonal_ones :: matrix where
  "offdiagonal_ones = (\<lambda>i j. if i = j then 0 else 1)"

definition power_record_mismatched :: json where
  "power_record_mismatched = JObj [(''type'', JStr ''ResidualHelmholtzPower''),
     (''n'', JArr [JNum 1, JNum 2]), (''t'', JArr [JNum 1]), (''d'', JArr [JNum 1, JNum 2])]"

definition power_record_mismatched_departure :: json where
  "power_record_mismatched_departure = JObj [(''type'', JStr ''Exponential''),
     (''n'', JArr [JNum 1, JNum 2]), (''t'', JArr [JNum 1]), (''d'', JArr [JNum 1, JNum 2])]"

definition exponential_record_fractional :: json where
  "exponential_record_fractional = JObj [(''type'', JStr ''ResidualHelmholtzExponential''),
     (''n'', JArr [JNum 1]), (''t'', JArr [JNum 1]), (''d'', JArr [JNum 1]),
     (''g'', JArr [JNum 1]), (''l'', JArr [JNum (3 / 2)])]"

definition Lemmon2005_record_fractional :: json where
  "Lemmon2005_record_fractional = JObj [(''type'', JStr ''ResidualHelmholtzLemmon2005''),
     (''n'', JArr [JNum 1]), (''t'', JArr [JNum 1]), (''d'', JArr [JNum 1]),
     (''m'', JArr [JNum 1]), (''l'', JArr [JNum (3 / 2)])]"

definition power_record_fractional :: json where
  "power_record_fractional = JObj [(''type'', JStr ''ResidualHelmholtzPower''),
     (''n'', JArr [JNum 1]), (''t'', JArr [JNum 1]), (''d'', JArr [JNum 1]),
     (''l'', JArr [JNum (3 / 2)])]"

definition power_record_large_exponent :: json where
  "power_record_large_exponent = JObj [(''type'', JStr ''ResidualHelmholtzPower''),
     (''n'', JArr [JNum 1]), (''t'', JArr [JNum 1]), (''d'', JArr [JNum 1]),
     (''l'', JArr [JNum 3000000000])]"

definition GERG_record_fractional :: json where
  "GERG_record_fractional = JObj [(''type'', JStr ''GERG-2008''), (''Npower'', JNum 1),
     (''n'', JArr [JNum 1, JNum 2]), (''t'', JArr [JNum 1, JNum 2]), (''d'', JArr [JNum 1, JNum 2]),
     (''eta'', JArr [JNum 0, JNum 3]), (''beta'', JArr [JNum 0, JNum 4]),
     (''gamma'', JArr [JNum 0, JNum 5]), (''epsilon'', JArr [JNum 0, JNum 6]),
     (''l'', JArr [JNum (3 / 2), JNum 0])]"

definition binary_base_model :: "(MultiFluidReducingFunction, unit, DepartureTerms) MultiFluid" where
  "binary_base_model =
     \<lparr>meta = [],
      redfunc = new_MultiFluidReducingFunction offdiagonal_ones offdiagonal_ones
                  offdiagonal_ones offdiagonal_ones [1, 1] [1, 1],
      corr = [(), ()],
      dep = \<lparr>F = zeros, funcs = (\<lambda>i j. if i = j then [] else [NullEOSTerm])\<rparr>\<rparr>"

definition override_document :: json where
  "override_document = JObj [(''0'', JObj [(''1'', JObj
     [(''BIP'', JObj [(''betaT'', JNum 2), (''gammaT'', JNum 3), (''betaV'', JNum 4),
                      (''gammaV'', JNum 5), (''Fij'', JNum 1)]),
      (''departure'', JObj [(''type'', JStr ''none'')])])])]"

text \<open>
  An instantiation of the templates: the asymmetric reducing function, dummy pure fluids,
  and departure term collections that evaluate to zero (the ones used below hold only
  the Null term or nothing).
\<close>

definition dummy_methods :: "(MultiFluidReducingFunction, unit, DepartureTerms) methods" where
  "dummy_methods = \<lparr>get_Tr = MultiFluidReducingFunction_get_Tr,
                     get_rhor = MultiFluidReducingFunction_get_rhor,
                     EOS_alphar = DummyEOS_alphar,
                     dep_alphar = (\<lambda>terms tau delta. 0)\<rparr>"

section \<open>Auxiliary lemmas\<close>

subsection \<open>Loops as sums and as single assignments\<close>

lemma fold_add_upt:
  fixes f :: "nat \<Rightarrow> real"
  shows "fold (\<lambda>i s. s + f i) [m..<n] a = a + (\<Sum>i = m..<n. f i)"
proof (induction n)
  case 0
  show ?case by simp
next
  case (Suc n)
  show ?case
  proof (cases "m \<le> n")
    case True
    then show ?thesis using Suc by (simp add: sum.atLeastLessThan_Suc)
  next
    case False
    then show ?thesis by simp
  qed
qed

lemma fold_add_pairs:
  fixes g :: "nat \<Rightarrow> nat \<Rightarrow> real"
  shows "fold (\<lambda>i. fold (\<lambda>j s. s + g i j) [Suc i..<N]) [0..<M] a
           = a + (\<Sum>i = 0..<M. \<Sum>j = Suc i..<N. g i j)"
proof (induction M)
  case 0
  show ?case by simp
next
  case (Suc M)
  show ?case using Suc by (simp add: fold_add_upt)
qed

lemma pairs_last_empty:
  fixes g :: "nat \<Rightarrow> nat \<Rightarrow> real"
  shows "(\<Sum>i = 0..<N - 1. \<Sum>j = Suc i..<N. g i j) = (\<Sum>i = 0..<N. \<Sum>j = Suc i..<N. g i j)"
proof (cases N)
  case 0
  then show ?thesis by simp
next
  case (Suc n)
  then show ?thesis by simp
qed

lemma accumulate_sum_list: "fold (\<lambda>x acc. acc + x) xs (a::real) = a + sum_list xs"
  by (induction xs arbitrary: a) simp_all

lemma fold_frame:
  assumes "\<And>y s. y \<in> set xs \<Longrightarrow> get (f y s) = get s"
  shows "get (fold f xs s) = get s"
  using assms by (induction xs arbitrary: s) simp_all

lemma fold_cell:
  assumes "x \<in> set xs"
    and frame: "\<And>y s. y \<in> set xs \<Longrightarrow> y \<noteq> x \<Longrightarrow> get (f y s) = get s"
    and wr: "\<And>s. get (f x s) = v"
  shows "get (fold f xs s) = v"
  using assms
proof (induction xs arbitrary: s)
  case Nil
  then show ?case by simp
next
  case (Cons y ys)
  show ?case
  proof (cases "x \<in> set ys")
    case True
    then show ?thesis using Cons by simp
  next
    case False
    with Cons.prems(1) have xy: "y = x" by simp
    have "get (fold f ys (f x s)) = get (f x s)"
    proof (rule fold_frame)
      fix y' s'
      assume "y' \<in> set ys"
      with False have "y' \<noteq> x" by auto
      with \<open>y' \<in> set ys\<close> show "get (f y' s') = get s'"
        using Cons.prems(2) by simp
    qed
    with xy show ?thesis using Cons.prems(3) by simp
  qed
qed

lemma for_each_frame:
  assumes "for_each xs body s = Inr s'"
    and "\<And>y t t'. y \<in> set xs \<Longrightarrow> body y t = Inr t' \<Longrightarrow> get t' = get t"
  shows "get s' = get s"
  using assms
proof (induction xs arbitrary: s)
  case Nil
  then show ?case by simp
next
  case (Cons y ys)
  from Cons.prems(1) obtain s1 where s1: "body y s = Inr s1" and rest: "for_each ys body s1 = Inr s'"
    by (auto split: sum.splits)
  have fr: "get t' = get t" if "y' \<in> set ys" "body y' t = Inr t'" for y' t t'
    using Cons.prems(2) [of y' t t'] that by simp
  have "get s' = get s1"
    by (rule Cons.IH [OF rest fr])
  moreover have "get s1 = get s"
    using Cons.prems(2) [OF _ s1] by simp
  ultimately show ?case by simp
qed

lemma for_each_cell:
  assumes "for_each xs body s = Inr s'" and "x \<in> set xs" and "distinct xs"
    and frame: "\<And>y t t'. y \<in> set xs \<Longrightarrow> y \<noteq> x \<Longrightarrow> body y t = Inr t' \<Longrightarrow> get t' = get t"
  shows "\<exists>t t'. body x t = Inr t' \<and> get t = get s \<and> get t' = get s'"
  using assms
proof (induction xs arbitrary: s)
  case Nil
  then show ?case by simp
next
  case (Cons y ys)
  from Cons.prems(1) obtain s1 where s1: "body y s = Inr s1" and rest: "for_each ys body s1 = Inr s'"
    by (auto split: sum.splits)
  show ?case
  proof (cases "y = x")
    case True
    with Cons.prems(3) have nin: "x \<notin> set ys" by simp
    have fr: "get t' = get t" if "y' \<in> set ys" "body y' t = Inr t'" for y' t t'
      using Cons.prems(4) [of y' t t'] that nin by auto
    have "get s' = get s1"
      by (rule for_each_frame [OF rest fr])
    with True s1 show ?thesis by auto
  next
    case False
    with Cons.prems(2) have xin: "x \<in> set ys" by simp
    have d: "distinct ys" using Cons.prems(3) by simp
    have fr: "get t' = get t" if "y' \<in> set ys" "y' \<noteq> x" "body y' t = Inr t'" for y' t t'
      using Cons.prems(4) [of y' t t'] that by simp
    have "\<exists>t t'. body x t = Inr t' \<and> get t = get s1 \<and> get t' = get s'"
      by (rule Cons.IH [OF rest xin d fr])
    moreover have "get s1 = get s"
      using Cons.prems(4) [OF _ False s1] by simp
    ultimately show ?thesis by auto
  qed
qed

lemma for_each_pairs_cell:
  fixes body :: "nat \<Rightarrow> nat \<Rightarrow> 's \<Rightarrow> error + 's" and sel :: "'s \<Rightarrow> nat \<Rightarrow> nat \<Rightarrow> 'a"
  assumes run: "for_each [0..<N] (\<lambda>i s. for_each [Suc i..<N] (body i) (pre i s)) s = Inr s'"
    and ij: "i < j" "j < N"
    and frame: "\<And>a b t t' p q. body a b t = Inr t' \<Longrightarrow> (p, q) \<noteq> (a, b) \<Longrightarrow> (p, q) \<noteq> (b, a)
                  \<Longrightarrow> sel t' p q = sel t p q"
    and pre: "\<And>a t p q. p \<noteq> q \<Longrightarrow> sel (pre a t) p q = sel t p q"
  shows "\<exists>t t'. body i j t = Inr t' \<and> sel t i j = sel s i j \<and> sel t j i = sel s j i
                \<and> sel s' i j = sel t' i j \<and> sel s' j i = sel t' j i"
proof -
  let ?get = "\<lambda>s. (sel s i j, sel s j i)"
  let ?outer = "\<lambda>i s. for_each [Suc i..<N] (body i) (pre i s)"
  have inner_frame: "?get t' = ?get t"
    if "for_each [Suc a..<N] (body a) t = Inr t'" "a \<noteq> i" for a t t'
  proof (rule for_each_frame [OF that(1)])
    fix b u u'
    assume b: "b \<in> set [Suc a..<N]" and u: "body a b u = Inr u'"
    from b have "a < b" by simp
    with that(2) ij have "(i, j) \<noteq> (a, b)" "(i, j) \<noteq> (b, a)" "(j, i) \<noteq> (a, b)" "(j, i) \<noteq> (b, a)"
      by auto
    then show "?get u' = ?get u"
      using frame [OF u] by simp
  qed
  have outer_frame: "?get t' = ?get t" if "?outer a t = Inr t'" "a \<noteq> i" for a t t'
    using inner_frame [OF that] pre [of i j a t] pre [of j i a t] ij by simp
  have "\<exists>t t'. ?outer i t = Inr t' \<and> ?get t = ?get s \<and> ?get t' = ?get s'"
    by (rule for_each_cell [OF run]) (use ij outer_frame in auto)
  then obtain t t' where o: "for_each [Suc i..<N] (body i) (pre i t) = Inr t'"
    and t: "?get t = ?get s" and t': "?get t' = ?get s'"
    by blast
  have "\<exists>u u'. body i j u = Inr u' \<and> ?get u = ?get (pre i t) \<and> ?get u' = ?get t'"
  proof (rule for_each_cell [OF o])
    show "j \<in> set [Suc i..<N]" using ij by simp
    show "distinct [Suc i..<N]" by simp
    fix b u u'
    assume b: "b \<in> set [Suc i..<N]" and ne: "b \<noteq> j" and u: "body i b u = Inr u'"
    from b have "i < b" by simp
    with ne ij have "(i, j) \<noteq> (i, b)" "(i, j) \<noteq> (b, i)" "(j, i) \<noteq> (i, b)" "(j, i) \<noteq> (b, i)"
      by auto
    then show "?get u' = ?get u"
      using frame [OF u] by simp
  qed
  then obtain u u' where "body i j u = Inr u'" "?get u = ?get (pre i t)" "?get u' = ?get t'"
    by blast
  with t t' pre [of i j i t] pre [of j i i t] ij show ?thesis
    by (intro exI [of _ u] exI [of _ u']) auto
qed

subsection \<open>The reducing function\<close>

lemma Y_formula:
  "Y z Yc beta Yij =
     (\<Sum>i = 0..<length z. (z ! i)\<^sup>2 * Yc ! i)
     + 2 * (\<Sum>i = 0..<length z. \<Sum>j = Suc i..<length z.
              z ! i * z ! j * (z ! i + z ! j) / ((beta i j)\<^sup>2 * z ! i + z ! j) * Yij i j)"
proof -
  let ?N = "length z"
  let ?g = "\<lambda>i j. z ! i * z ! j * (z ! i + z ! j) / ((beta i j)\<^sup>2 * z ! i + z ! j) * Yij i j"
  have s1: "fold (\<lambda>i sum1. sum1 + square (z ! i) * Yc ! i) [0..<?N] 0
              = (\<Sum>i = 0..<?N. (z ! i)\<^sup>2 * Yc ! i)"
    using fold_add_upt [where f = "\<lambda>i. square (z ! i) * Yc ! i" and m = 0 and n = ?N and a = 0]
    by (simp add: square_def power2_eq_square)
  have body: "(\<lambda>i. fold (\<lambda>j sum2. sum2 + 2 * z ! i * z ! j * (z ! i + z ! j)
                  / (square (beta i j) * z ! i + z ! j) * Yij i j) [Suc i..<?N])
             = (\<lambda>i. fold (\<lambda>j s. s + 2 * ?g i j) [Suc i..<?N])"
    by (simp add: square_def power2_eq_square mult.assoc)
  have s2: "fold (\<lambda>i. fold (\<lambda>j sum2. sum2 + 2 * z ! i * z ! j * (z ! i + z ! j)
                  / (square (beta i j) * z ! i + z ! j) * Yij i j) [Suc i..<?N]) [0..<?N - 1] 0
              = 2 * (\<Sum>i = 0..<?N. \<Sum>j = Suc i..<?N. ?g i j)"
    unfolding body
    using fold_add_pairs [where g = "\<lambda>i j. 2 * ?g i j" and N = ?N and M = "?N - 1" and a = 0]
          pairs_last_empty [where g = "\<lambda>i j. 2 * ?g i j" and N = ?N]
    by (simp add: sum_distrib_left)
  show ?thesis
    unfolding Y_def Let_def s1 s2 ..
qed

lemma precompute_pair_other:
  assumes "(a, b) \<noteq> (i, j)" "(a, b) \<noteq> (j, i)"
  shows "fst (precompute_pair bT gT bV gV Tcs vcs i j s) a b = fst s a b"
    and "snd (precompute_pair bT gT bV gV Tcs vcs i j s) a b = snd s a b"
  using assms by (auto simp: precompute_pair_def set_entry_def Let_def split_def)

lemma precompute_pair_upper:
  assumes "i \<noteq> j"
  shows "fst (precompute_pair bT gT bV gV Tcs vcs i j s) i j
           = bT i j * gT i j * sqrt (Tcs ! i * Tcs ! j)"
    and "snd (precompute_pair bT gT bV gV Tcs vcs i j s) i j
           = 1 / 8 * bV i j * gV i j * cube (cbrt (vcs ! i) + cbrt (vcs ! j))"
  using assms by (auto simp: precompute_pair_def set_entry_def Let_def split_def)

lemma precompute_loops_upper:
  fixes bT gT bV gV :: matrix and Tcs vcs :: "real list"
  assumes "i < j" "j < N"
  defines "r \<equiv> fold (\<lambda>i. fold (precompute_pair bT gT bV gV Tcs vcs i) [Suc i..<N]) [0..<N] (zeros, zeros)"
  shows "fst r i j = bT i j * gT i j * sqrt (Tcs ! i * Tcs ! j)"
    and "snd r i j = 1 / 8 * bV i j * gV i j * cube (cbrt (vcs ! i) + cbrt (vcs ! j))"
proof -
  let ?pp = "precompute_pair bT gT bV gV Tcs vcs"
  have other: "fst (fold (?pp i') [Suc i'..<N] s) i j = fst s i j"
              "snd (fold (?pp i') [Suc i'..<N] s) i j = snd s i j"
    if "i' \<noteq> i" for i' s
  proof -
    have ne: "(i, j) \<noteq> (i', j') \<and> (i, j) \<noteq> (j', i')" if "j' \<in> set [Suc i'..<N]" for j'
      using that \<open>i' \<noteq> i\<close> \<open>i < j\<close> by auto
    show "fst (fold (?pp i') [Suc i'..<N] s) i j = fst s i j"
      by (rule fold_frame [where get = "\<lambda>s. fst s i j"]) (use ne in \<open>simp add: precompute_pair_other\<close>)
    show "snd (fold (?pp i') [Suc i'..<N] s) i j = snd s i j"
      by (rule fold_frame [where get = "\<lambda>s. snd s i j"]) (use ne in \<open>simp add: precompute_pair_other\<close>)
  qed
  have jin: "j \<in> set [Suc i..<N]" using assms by simp
  have ne2: "(i, j) \<noteq> (i, j') \<and> (i, j) \<noteq> (j', i)" if "j' \<in> set [Suc i..<N]" "j' \<noteq> j" for j'
    using that by auto
  have row1: "fst (fold (?pp i) [Suc i..<N] s) i j = bT i j * gT i j * sqrt (Tcs ! i * Tcs ! j)" for s
    by (rule fold_cell [where get = "\<lambda>s. fst s i j", OF jin])
       (use ne2 \<open>i < j\<close> in \<open>simp_all add: precompute_pair_other precompute_pair_upper\<close>)
  have row2: "snd (fold (?pp i) [Suc i..<N] s) i j
      = 1 / 8 * bV i j * gV i j * cube (cbrt (vcs ! i) + cbrt (vcs ! j))" for s
    by (rule fold_cell [where get = "\<lambda>s. snd s i j", OF jin])
       (use ne2 \<open>i < j\<close> in \<open>simp_all add: precompute_pair_other precompute_pair_upper\<close>)
  have iin: "i \<in> set [0..<N]" using assms by simp
  show "fst r i j = bT i j * gT i j * sqrt (Tcs ! i * Tcs ! j)"
    unfolding r_def
    by (rule fold_cell [where get = "\<lambda>s. fst s i j", OF iin]) (simp_all add: other row1)
  show "snd r i j = 1 / 8 * bV i j * gV i j * cube (cbrt (vcs ! i) + cbrt (vcs ! j))"
    unfolding r_def
    by (rule fold_cell [where get = "\<lambda>s. snd s i j", OF iin]) (simp_all add: other row2)
qed

lemma new_MultiFluidReducingFunction_YT:
  assumes "i < j" "j < length Tcs"
  shows "YT (new_MultiFluidReducingFunction bT gT bV gV Tcs vcs) i j
           = bT i j * gT i j * sqrt (Tcs ! i * Tcs ! j)"
    and "Yv (new_MultiFluidReducingFunction bT gT bV gV Tcs vcs) i j
           = 1 / 8 * bV i j * gV i j * (root 3 (vcs ! i) + root 3 (vcs ! j)) ^ 3"
  using precompute_loops_upper [OF assms, of bT gT bV gV Tcs vcs]
  by (simp_all add: new_MultiFluidReducingFunction_def Let_def split_def cube_def cbrt_def
        power3_eq_cube)

lemma new_MultiFluidReducingFunction_fields [simp]:
  "betaT (new_MultiFluidReducingFunction bT gT bV gV Tcs vcs) = bT"
  "gammaT (new_MultiFluidReducingFunction bT gT bV gV Tcs vcs) = gT"
  "betaV (new_MultiFluidReducingFunction bT gT bV gV Tcs vcs) = bV"
  "gammaV (new_MultiFluidReducingFunction bT gT bV gV Tcs vcs) = gV"
  "Tc (new_MultiFluidReducingFunction bT gT bV gV Tcs vcs) = Tcs"
  "vc (new_MultiFluidReducingFunction bT gT bV gV Tcs vcs) = vcs"
  by (simp_all add: new_MultiFluidReducingFunction_def Let_def split_def)

subsection \<open>Resolution and the matrices of a mixture\<close>

lemma if_chain: "(if A then X else if B then X else M) = (if A \<or> B then X else M)"
  by simp

lemma match_pair_Cons:
  assumes n1: "ebind (idx_const el ''Name1'') get_string = Inr s1"
    and n2: "ebind (idx_const el ''Name2'') get_string = Inr s2"
  shows "match_pair x y (el # els) =
             (if (x = toupper s1 \<and> y = toupper s2) \<or> (x = toupper s2 \<and> y = toupper s1)
              then Inr el else match_pair x y els)"
  by (simp only: match_pair.simps n1 n2 sum.case Let_def if_chain)

lemma match_pair_Cons_error:
  "ebind (idx_const el ''Name1'') get_string = Inl e \<Longrightarrow> match_pair x y (el # els) = Inl e"
  "ebind (idx_const el ''Name1'') get_string = Inr s1 \<Longrightarrow>
   ebind (idx_const el ''Name2'') get_string = Inl e \<Longrightarrow> match_pair x y (el # els) = Inl e"
  by (simp_all only: match_pair.simps sum.case)

lemma match_pair_swap: "match_pair x y els = match_pair y x els"
proof (induction els)
  case Nil
  show ?case by (simp only: match_pair.simps)
next
  case (Cons el els)
  show ?case
  proof (cases "ebind (idx_const el ''Name1'') get_string")
    case (Inl e)
    then show ?thesis by (simp only: match_pair_Cons_error)
  next
    case n1: (Inr s1)
    show ?thesis
    proof (cases "ebind (idx_const el ''Name2'') get_string")
      case (Inl e)
      with n1 show ?thesis by (simp only: match_pair_Cons_error)
    next
      case n2: (Inr s2)
      have c: "((x = toupper s1 \<and> y = toupper s2) \<or> (x = toupper s2 \<and> y = toupper s1))
           = ((y = toupper s1 \<and> x = toupper s2) \<or> (y = toupper s2 \<and> x = toupper s1))"
        by blast
      show ?thesis
        unfolding match_pair_Cons [OF n1 n2] c Cons.IH ..
    qed
  qed
qed

lemma get_BIPdep_swap:
  "get_BIPdep collection [a, b] flags = get_BIPdep collection [b, a] flags"
  unfolding get_BIPdep_def using match_pair_swap [of "toupper a" "toupper b" "items collection"]
  by simp


lemma match_pair_nonempty:
  "match_pair a b els = Inr el \<Longrightarrow> \<not> json_empty el"
proof (induction els)
  case Nil
  then show ?case by simp
next
  case (Cons x xs)
  show ?case
  proof (cases "el = x")
    case True
    from Cons.prems obtain s1 where "ebind (idx_const x ''Name1'') get_string = Inr s1"
      by (auto split: sum.splits)
    then obtain v where "idx_const x ''Name1'' = Inr v"
      by (auto simp: ebind_def split: sum.splits)
    then have "\<not> json_empty x"
      by (cases x) (auto simp: json_empty_def split: option.splits)
    with True show ?thesis by simp
  next
    case False
    with Cons show ?thesis
      by (auto simp: Let_def split: sum.splits if_splits)
  qed
qed

lemma get_BIPdep_nonempty:
  "get_BIPdep collection components flags = Inr el \<Longrightarrow> \<not> json_empty el"
  by (auto simp: get_BIPdep_def estimated_BIP_def json_empty_def split: if_splits
      dest: match_pair_nonempty)

lemma departure_pair_frame:
  assumes "departure_pair depcollection BIPcollection components flags a b t = Inr t'"
    and "(p, q) \<noteq> (a, b)" and "(p, q) \<noteq> (b, a)"
  shows "t' p q = t p q"
  using assms
  by (auto simp: departure_pair_def ebind_def Let_def set_entry_def
      split: sum.splits if_splits)

lemma F_pair_frame:
  assumes "F_pair collection components flags a b t = Inr t'"
    and "(p, q) \<noteq> (a, b)" and "(p, q) \<noteq> (b, a)"
  shows "t' p q = t p q"
  using assms
  by (auto simp: F_pair_def ebind_def Let_def set_entry_def split: sum.splits if_splits)

lemma departure_pair_no_function:
  assumes "get_BIPdep BIPcollection [components ! i, components ! j] flags = Inr el"
    and "\<not> contains el ''function'' \<or> idx el ''function'' = Inr (JStr [])"
    and "i \<noteq> j"
  shows "departure_pair depcollection BIPcollection components flags i j fs
           = Inr (set_entry (set_entry fs i j (fs i j @ [NullEOSTerm])) j i (fs j i @ [NullEOSTerm]))"
  using assms
  by (auto simp: departure_pair_def ebind_def Let_def set_entry_def add_term_def)

lemma F_pair_value:
  assumes "get_BIPdep collection [components ! i, components ! j] flags = Inr el"
    and "F_pair collection components flags i j t = Inr t'"
  shows "field_double el ''F'' = Inr (t' i j) \<and> t' j i = t' i j"
  using assms get_BIPdep_nonempty [OF assms(1)]
  by (auto simp: F_pair_def ebind_def set_entry_def split: sum.splits)

lemma BIP_pair_frame:
  assumes "BIP_pair collection components flags a b t = Inr t'"
    and "(p, q) \<noteq> (a, b)" and "(p, q) \<noteq> (b, a)"
  shows "BIP_entries t' p q = BIP_entries t p q"
  using assms
  by (auto simp: BIP_pair_def BIP_entries_def ebind_def Let_def set_entry_def
      split: sum.splits prod.splits)

lemma BIP_pair_symmetry:
  assumes "BIP_pair collection components flags i j t = Inr (bT, gT, bV, gV)" and "i \<noteq> j"
  shows "bT j i = 1 / bT i j \<and> gT j i = gT i j \<and> bV j i = 1 / bV i j \<and> gV j i = gV i j"
  using assms
  by (auto simp: BIP_pair_def ebind_def Let_def set_entry_def split: sum.splits prod.splits)


lemma new_MultiFluidInvariantReducingFunction_fields [simp]:
  "phiT (new_MultiFluidInvariantReducingFunction phT lT phV lV Tcs vcs) = phT"
  "lambdaT (new_MultiFluidInvariantReducingFunction phT lT phV lV Tcs vcs) = lT"
  "phiV (new_MultiFluidInvariantReducingFunction phT lT phV lV Tcs vcs) = phV"
  "lambdaV (new_MultiFluidInvariantReducingFunction phT lT phV lV Tcs vcs) = lV"
  by (simp_all add: new_MultiFluidInvariantReducingFunction_def Let_def split_def)

lemma invariant_mutant_pair_antisymmetry:
  assumes "invariant_mutant_pair jj i j s = Inr (phT, lT, phV, lV, Fm, fs)" and "i \<noteq> j"
  shows "lT i j = - lT j i \<and> lV i j = - lV j i \<and> phT i j = phT j i \<and> phV i j = phV j i"
  using assms
  by (auto simp: invariant_mutant_pair_def ebind_def Let_def set_entry_def
      split: sum.splits prod.splits)

lemma invariant_mutant_pair_diagonal:
  "invariant_mutant_pair jj i i (phT, lT, phV, lV, Fm, fs)
     = Inr (phT, lT, phV, lV, Fm, set_entry fs i i (add_term (fs i i) NullEOSTerm))"
  by (simp add: invariant_mutant_pair_def)

subsection \<open>Evaluation at the concrete inputs\<close>

lemmas resolve_eval =
  get_BIPdep_def get_binary_interaction_double_def field_double_def ebind_def
  toupper_def toupper_char_def Let_def

lemmas json_eval =
  ebind_def Let_def json_empty_def field_eig_def field_eig_const_def eigorzero_def
  all_same_length_def any_non_integer_def cast_int_def c_from_l_def head_def tail_def
  add_term_def

lemma to_string_0: "to_string 0 = ''0''" by (simp add: to_string.simps [of 0])

lemma to_string_1: "to_string (Suc 0) = ''1''" by (simp add: to_string.simps [of "Suc 0"])

lemma catalog_AbCd_resolves:
  "get_BIPdep catalog_AbCd [[''Ab'', ''Cd''] ! 0, [''Ab'', ''Cd''] ! 1] JNull
     = Inr (hd (items catalog_AbCd))"
  by (simp add: catalog_AbCd_def resolve_eval)

lemma catalog_AbCd_F_matrix:
  "get_F_matrix catalog_AbCd [''Ab'', ''Cd''] JNull
     = Inr (set_entry (set_entry (set_entry (set_entry zeros 0 0 0) 0 1 1) 1 0 1) 1 1 0)"
  by (simp add: get_F_matrix_def F_pair_def catalog_AbCd_def resolve_eval json_empty_def
      set_entry_def)

lemma catalog_AbCd_departure_matrix:
  "get_departure_function_matrix depcollection catalog_AbCd [''Ab'', ''Cd''] JNull
     = Inr (set_entry (set_entry (\<lambda>i j. []) 0 1 [NullEOSTerm]) 1 0 [NullEOSTerm])"
  by (simp add: get_departure_function_matrix_def departure_pair_def catalog_AbCd_def
      resolve_eval add_term_def set_entry_def)

lemma binary_base_redfunc:
  "redfunc binary_base_model
     = new_MultiFluidReducingFunction offdiagonal_ones offdiagonal_ones
         offdiagonal_ones offdiagonal_ones [1, 1] [1, 1]"
  by (simp add: binary_base_model_def)

lemma mutant_loops_eval:
  "for_each [0..<Suc (Suc 0)] (\<lambda>i. for_each [i..<Suc (Suc 0)] (mutant_pair (redfunc binary_base_model) override_document i))
      (bT, gT, bV, gV, Fm, fs)
   = Inr (set_entry (set_entry bT 0 1 2) 1 0 1,
          set_entry (set_entry gT 0 1 3) 1 0 3,
          set_entry (set_entry bV 0 1 4) 1 0 1,
          set_entry (set_entry gV 0 1 5) 1 0 5,
          set_entry (set_entry Fm 0 1 1) 1 0 1,
          set_entry (set_entry (set_entry (set_entry fs 0 0 (fs 0 0 @ [NullEOSTerm])) 0 1 [NullEOSTerm]) 1 0 [NullEOSTerm]) 1 1 (fs 1 1 @ [NullEOSTerm]))"
  by (simp add: mutant_pair_def to_string_0 to_string_1 override_document_def
     binary_base_model_def build_departure_function_def json_eval offdiagonal_ones_def
     set_entry_def)

lemma mutant_eval:
  "build_multifluid_mutant dump binary_base_model override_document
    = Inr \<lparr>adapter_meta = dump override_document, base = binary_base_model,
           adapter_redfunc = new_MultiFluidReducingFunction
              (set_entry (set_entry offdiagonal_ones 0 1 2) 1 0 1)
              (set_entry (set_entry offdiagonal_ones 0 1 3) 1 0 3)
              (set_entry (set_entry offdiagonal_ones 0 1 4) 1 0 1)
              (set_entry (set_entry offdiagonal_ones 0 1 5) 1 0 5) [1, 1] [1, 1],
           depfunc = \<lparr>F = set_entry (set_entry zeros 0 1 1) 1 0 1,
                      funcs = set_entry (set_entry (set_entry (set_entry (\<lambda>i j. []) 0 0 [NullEOSTerm]) 0 1 [NullEOSTerm]) 1 0 [NullEOSTerm]) 1 1 [NullEOSTerm]\<rparr>\<rparr>"
proof -
  have N: "length (Tc (redfunc binary_base_model)) = Suc (Suc 0)"
    by (simp add: binary_base_redfunc)
  have flds: "betaT (redfunc binary_base_model) = offdiagonal_ones"
    "gammaT (redfunc binary_base_model) = offdiagonal_ones"
    "betaV (redfunc binary_base_model) = offdiagonal_ones"
    "gammaV (redfunc binary_base_model) = offdiagonal_ones"
    "Tc (redfunc binary_base_model) = [1, 1]"
    "vc (redfunc binary_base_model) = [1, 1]"
    by (simp_all add: binary_base_redfunc)
  show ?thesis
    unfolding build_multifluid_mutant_def Let_def N mutant_loops_eval
    by (simp add: ebind_def flds)
qed

lemma base_Tr: "MultiFluidReducingFunction_get_Tr (redfunc binary_base_model) [1 / 2, 1 / 2] = 1"
  and base_rhor: "MultiFluidReducingFunction_get_rhor (redfunc binary_base_model) [1 / 2, 1 / 2] = 1"
  by (simp_all add: binary_base_redfunc MultiFluidReducingFunction_get_Tr_def
      MultiFluidReducingFunction_get_rhor_def Y_formula new_MultiFluidReducingFunction_YT
      offdiagonal_ones_def power2_eq_square)



section \<open>The claims\<close>

text \<open>
  C1.  \<^verbatim>\<open>MultiFluid::alphar(T, rho, z)\<close> takes \<open>tau = Tr(z) / T\<close> and
  \<open>delta = rho / rhor(z)\<close> from the reducing function and returns the corresponding-states
  sum \<open>\<Sum>\<^sub>i z\<^sub>i EOS\<^sub>i.alphar(tau, delta)\<close> plus the departure sum
  \<open>\<Sum>\<^sub>i\<^sub><\<^sub>j z\<^sub>i z\<^sub>j F(i,j) funcs[i][j].alphar(tau, delta)\<close>, in which every unordered pair
  occurs once (\<open>j\<close> runs over \<open>i + 1, ..., N - 1\<close>).  The composition has at most as
  many entries as the model has pure fluids, so that every \<open>EOSs[i]\<close> exists.
\<close>

theorem MultiFluid_alphar_formula:
  assumes "length z \<le> length (corr model)"
  shows "MultiFluid_alphar I model T rho z =
     (let tau = get_Tr I (redfunc model) z / T;
          delta = rho / get_rhor I (redfunc model) z
      in (\<Sum>i = 0..<length z. z ! i * EOS_alphar I (corr model ! i) tau delta)
         + (\<Sum>i = 0..<length z. \<Sum>j = Suc i..<length z.
              z ! i * z ! j * F (dep model) i j * dep_alphar I (funcs (dep model) i j) tau delta))"
  by (simp add: MultiFluid_alphar_def CorrespondingStatesContribution_alphar_def
      DepartureContribution_alphar_def Let_def fold_add_upt fold_add_pairs)

theorem MultiFluid_alphar_formula_witness:
  "length [1 / 2, 1 / 2 :: real] \<le> length (corr binary_base_model)
   \<and> MultiFluid_alphar dummy_methods binary_base_model 1 1 [1 / 2, 1 / 2] = 1"
proof -
  have h: "length [1 / 2, 1 / 2 :: real] \<le> length (corr binary_base_model)"
    by (simp add: binary_base_model_def)
  have m: "get_Tr dummy_methods = MultiFluidReducingFunction_get_Tr"
    "get_rhor dummy_methods = MultiFluidReducingFunction_get_rhor"
    "EOS_alphar dummy_methods = DummyEOS_alphar"
    "dep_alphar dummy_methods = (\<lambda>terms tau delta. 0)"
    by (simp_all add: dummy_methods_def)
  have "MultiFluid_alphar dummy_methods binary_base_model 1 1 [1 / 2, 1 / 2] = 1"
    unfolding MultiFluid_alphar_formula [OF h] m base_Tr base_rhor
    by (simp add: DummyEOS_alphar_def)
  with h show ?thesis by simp
qed

text \<open>
  C2.  The asymmetric (GERG-style) reducing function:
  \<open>Y(z, Yc, beta, Yij) = \<Sum>\<^sub>i z\<^sub>i\<^sup>2 Yc\<^sub>i + 2 \<Sum>\<^sub>i\<^sub><\<^sub>j z\<^sub>i z\<^sub>j (z\<^sub>i + z\<^sub>j) / (beta(i,j)\<^sup>2 z\<^sub>i + z\<^sub>j) Yij(i,j)\<close>;
  for a reducing function built by the constructor from \<open>betaT, gammaT, betaV, gammaV, Tc, vc\<close>
  and a composition with one entry per component, the reducing temperature is \<open>Y\<close> with
  \<open>Yc = Tc\<close>, \<open>beta = betaT\<close> and \<open>YT(i,j) = betaT(i,j) gammaT(i,j) sqrt(Tc\<^sub>i Tc\<^sub>j)\<close>, and the
  reducing density is the reciprocal of \<open>Y\<close> with \<open>vc\<close>, \<open>betaV\<close> and
  \<open>Yv(i,j) = (1/8) betaV(i,j) gammaV(i,j) (cbrt vc\<^sub>i + cbrt vc\<^sub>j)\<^sup>3\<close>.
\<close>

theorem reducing_function_formulas:
  fixes bT gT bV gV :: matrix
  assumes "length Tcs = length z" and "length vcs = length z"
  shows "Y z Yc beta Yij =
           (\<Sum>i = 0..<length z. (z ! i)\<^sup>2 * Yc ! i)
           + 2 * (\<Sum>i = 0..<length z. \<Sum>j = Suc i..<length z.
                z ! i * z ! j * (z ! i + z ! j) / ((beta i j)\<^sup>2 * z ! i + z ! j) * Yij i j)
       \<and> MultiFluidReducingFunction_get_Tr
             (new_MultiFluidReducingFunction bT gT bV gV Tcs vcs) z =
           (\<Sum>i = 0..<length z. (z ! i)\<^sup>2 * Tcs ! i)
           + 2 * (\<Sum>i = 0..<length z. \<Sum>j = Suc i..<length z.
                z ! i * z ! j * (z ! i + z ! j) / ((bT i j)\<^sup>2 * z ! i + z ! j)
                  * (bT i j * gT i j * sqrt (Tcs ! i * Tcs ! j)))
       \<and> MultiFluidReducingFunction_get_rhor
             (new_MultiFluidReducingFunction bT gT bV gV Tcs vcs) z =
           1 / ((\<Sum>i = 0..<length z. (z ! i)\<^sup>2 * vcs ! i)
           + 2 * (\<Sum>i = 0..<length z. \<Sum>j = Suc i..<length z.
                z ! i * z ! j * (z ! i + z ! j) / ((bV i j)\<^sup>2 * z ! i + z ! j)
                  * (1 / 8 * bV i j * gV i j * (root 3 (vcs ! i) + root 3 (vcs ! j)) ^ 3)))"
proof -
  let ?N = "length z"
  define rf where "rf = new_MultiFluidReducingFunction bT gT bV gV Tcs vcs"
  have yt: "(\<Sum>j = Suc i..<?N. z ! i * z ! j * (z ! i + z ! j) / ((bT i j)\<^sup>2 * z ! i + z ! j) * YT rf i j)
          = (\<Sum>j = Suc i..<?N. z ! i * z ! j * (z ! i + z ! j) / ((bT i j)\<^sup>2 * z ! i + z ! j)
                  * (bT i j * gT i j * sqrt (Tcs ! i * Tcs ! j)))" for i
    by (rule sum.cong) (simp_all add: rf_def new_MultiFluidReducingFunction_YT assms)
  have yv: "(\<Sum>j = Suc i..<?N. z ! i * z ! j * (z ! i + z ! j) / ((bV i j)\<^sup>2 * z ! i + z ! j) * Yv rf i j)
          = (\<Sum>j = Suc i..<?N. z ! i * z ! j * (z ! i + z ! j) / ((bV i j)\<^sup>2 * z ! i + z ! j)
                  * (1 / 8 * bV i j * gV i j * (root 3 (vcs ! i) + root 3 (vcs ! j)) ^ 3))" for i
    by (rule sum.cong) (simp_all add: rf_def new_MultiFluidReducingFunction_YT assms)
  have flds: "Tc rf = Tcs" "vc rf = vcs" "betaT rf = bT" "betaV rf = bV"
    by (simp_all add: rf_def)
  have tr: "MultiFluidReducingFunction_get_Tr rf z =
           (\<Sum>i = 0..<length z. (z ! i)\<^sup>2 * Tcs ! i)
           + 2 * (\<Sum>i = 0..<length z. \<Sum>j = Suc i..<length z.
                z ! i * z ! j * (z ! i + z ! j) / ((bT i j)\<^sup>2 * z ! i + z ! j)
                  * (bT i j * gT i j * sqrt (Tcs ! i * Tcs ! j)))"
    unfolding MultiFluidReducingFunction_get_Tr_def Y_formula flds yt ..
  have rh: "MultiFluidReducingFunction_get_rhor rf z =
           1 / ((\<Sum>i = 0..<length z. (z ! i)\<^sup>2 * vcs ! i)
           + 2 * (\<Sum>i = 0..<length z. \<Sum>j = Suc i..<length z.
                z ! i * z ! j * (z ! i + z ! j) / ((bV i j)\<^sup>2 * z ! i + z ! j)
                  * (1 / 8 * bV i j * gV i j * (root 3 (vcs ! i) + root 3 (vcs ! j)) ^ 3)))"
    unfolding MultiFluidReducingFunction_get_rhor_def Y_formula flds yv ..
  show ?thesis using Y_formula tr rh unfolding rf_def by blast
qed

theorem reducing_function_formulas_witness:
  "length [1, 4 :: real] = length [1 / 2, 1 / 2 :: real]
   \<and> length [1, 1 :: real] = length [1 / 2, 1 / 2 :: real]
   \<and> MultiFluidReducingFunction_get_Tr
        (new_MultiFluidReducingFunction ones ones ones ones [1, 4] [1, 1]) [1 / 2, 1 / 2] = 9 / 4
   \<and> MultiFluidReducingFunction_get_rhor
        (new_MultiFluidReducingFunction ones ones ones ones [1, 4] [1, 1]) [1 / 2, 1 / 2] = 1"
  using reducing_function_formulas [where Tcs = "[1, 4]" and z = "[1 / 2, 1 / 2]"
      and vcs = "[1, 1]" and bT = ones and gT = ones and bV = ones and gV = ones
      and Yc = "[]" and beta = ones and Yij = ones]
  by (simp add: ones_def power2_eq_square)

text \<open>
  C3, at a failing input.  The base model has two components and \<open>betaT = betaV = 1\<close>
  for its pair; the override document sets \<open>betaT = 2\<close>, \<open>betaV = 4\<close>, \<open>gammaT = 3\<close>
  for the pair \<open>(0, 1)\<close>.  \<^verbatim>\<open>build_multifluid_mutant\<close> stores the new values at
  \<open>(0, 1)\<close> and, at \<open>(1, 0)\<close>, the reciprocals of the base model's values
  (\<^verbatim>\<open>1 / red.betaT(i, j)\<close>): the rebuilt reducing function has \<open>betaT(0,1) = 2\<close> and
  \<open>betaT(1,0) = 1\<close>, not \<open>1/2\<close>.  The symmetric parameters are copied from the new
  values and agree.
\<close>

theorem mutant_betaT_not_reciprocal:
  "\<exists>mfa. build_multifluid_mutant dump binary_base_model override_document = Inr mfa
     \<and> betaT (adapter_redfunc mfa) 0 1 = 2 \<and> betaT (adapter_redfunc mfa) 1 0 = 1
     \<and> betaV (adapter_redfunc mfa) 0 1 = 4 \<and> betaV (adapter_redfunc mfa) 1 0 = 1
     \<and> gammaT (adapter_redfunc mfa) 0 1 = 3 \<and> gammaT (adapter_redfunc mfa) 1 0 = 3
     \<and> betaT (adapter_redfunc mfa) 0 1 \<noteq> 1 / betaT (adapter_redfunc mfa) 1 0"
  by (simp add: mutant_eval set_entry_def)

text \<open>
  The matrices \<^verbatim>\<open>get_BIP_matrices\<close> builds from a catalog do have the symmetry: there
  the entry \<open>(j, i)\<close> is computed from the entry \<open>(i, j)\<close> just stored.
\<close>

lemma get_BIP_matrices_symmetry:
  assumes "get_BIP_matrices collection components flags = Inr (bT, gT, bV, gV)"
    and "i < j" and "j < length components"
  shows "bT i j = 1 / bT j i \<and> bT j i = 1 / bT i j \<and> gT i j = gT j i
       \<and> bV i j = 1 / bV j i \<and> bV j i = 1 / bV i j \<and> gV i j = gV j i"
proof -
  from assms(1) have run: "for_each [0..<length components] (\<lambda>i s. for_each [Suc i..<length components]
        (BIP_pair collection components flags i) ((\<lambda>a t. t) i s)) (zeros, zeros, zeros, zeros)
      = Inr (bT, gT, bV, gV)"
    by (simp add: get_BIP_matrices_def Let_def)
  have "\<exists>t t'. BIP_pair collection components flags i j t = Inr t'
      \<and> BIP_entries t i j = BIP_entries (zeros, zeros, zeros, zeros) i j
      \<and> BIP_entries t j i = BIP_entries (zeros, zeros, zeros, zeros) j i
      \<and> BIP_entries (bT, gT, bV, gV) i j = BIP_entries t' i j
      \<and> BIP_entries (bT, gT, bV, gV) j i = BIP_entries t' j i"
    by (rule for_each_pairs_cell [OF run assms(2) assms(3)]) (auto dest: BIP_pair_frame)
  then obtain t bT' gT' bV' gV' where
    p: "BIP_pair collection components flags i j t = Inr (bT', gT', bV', gV')"
    and e: "BIP_entries (bT, gT, bV, gV) i j = BIP_entries (bT', gT', bV', gV') i j"
       "BIP_entries (bT, gT, bV, gV) j i = BIP_entries (bT', gT', bV', gV') j i"
    by (metis prod_cases4)
  from assms(2) have "i \<noteq> j" by simp
  from BIP_pair_symmetry [OF p this] e show ?thesis
    by (simp add: BIP_entries_def)
qed

text \<open>
  So has the reducing function \<^verbatim>\<open>build_multifluid_mutant_invariant\<close> rebuilds, for the
  one pair of the binary mixtures it accepts: \<open>lambda\<close> is antisymmetric and \<open>phi\<close>
  symmetric.
\<close>

lemma build_multifluid_mutant_invariant_antisymmetry:
  assumes "build_multifluid_mutant_invariant dump model jj = Inr mfa"
  shows "lambdaT (adapter_redfunc mfa) 0 1 = - lambdaT (adapter_redfunc mfa) 1 0
       \<and> lambdaV (adapter_redfunc mfa) 0 1 = - lambdaV (adapter_redfunc mfa) 1 0
       \<and> phiT (adapter_redfunc mfa) 0 1 = phiT (adapter_redfunc mfa) 1 0
       \<and> phiV (adapter_redfunc mfa) 0 1 = phiV (adapter_redfunc mfa) 1 0"
proof -
  let ?s0 = "(ones, gammaT (redfunc model), ones, zeros, zeros, (\<lambda>i j. []))
               :: mutant_state"
  from assms have N: "length (Tc (redfunc model)) = Suc (Suc 0)"
    by (auto simp: build_multifluid_mutant_invariant_def Let_def split: if_splits)
  from assms obtain phT lT phV lV Fm fs where
    run: "for_each [0..<Suc (Suc 0)] (\<lambda>i. for_each [i..<Suc (Suc 0)] (invariant_mutant_pair jj i)) ?s0
            = Inr (phT, lT, phV, lV, Fm, fs)"
    and red: "adapter_redfunc mfa
            = new_MultiFluidInvariantReducingFunction phT lT phV lV (Tc (redfunc model)) (vc (redfunc model))"
    unfolding build_multifluid_mutant_invariant_def Let_def N
    by (auto simp: ebind_def split: sum.splits prod.splits if_splits)
  from run have "\<exists>sa fs'. invariant_mutant_pair jj 0 (Suc 0) sa = Inr (phT, lT, phV, lV, Fm, fs')"
    by (fastforce simp: invariant_mutant_pair_diagonal split: sum.splits prod.splits)
  then obtain sa fs' where "invariant_mutant_pair jj 0 (Suc 0) sa = Inr (phT, lT, phV, lV, Fm, fs')"
    by blast
  from invariant_mutant_pair_antisymmetry [OF this] show ?thesis
    by (simp add: red)
qed

text \<open>
  C4, at failing inputs.  \<^verbatim>\<open>get_EOS_terms\<close> builds a power term from a record whose
  arrays \<open>n, t, d\<close> have the lengths \<open>2, 1, 2\<close> (its \<^verbatim>\<open>build_power\<close> never calls
  \<^verbatim>\<open>all_same_length\<close>), and an exponential term from a record with \<open>l = [3/2]\<close>, stored
  with the integer exponent \<open>1\<close> (its \<^verbatim>\<open>build_exponential\<close> does not test \<open>l\<close>);
  \<^verbatim>\<open>build_departure_function\<close> builds the power part of a GERG record with
  \<open>l = 3/2\<close> in the same way.  No error is raised in any of the three.
\<close>

theorem term_construction_missing_checks:
  "\<not> all_same_length power_record_mismatched [''n'', ''t'', ''d'']
   \<and> get_EOS_terms (JArr [power_record_mismatched])
       = Inr [PowerEOSTerm [1, 2] [1] [1, 2] [0, 0] [0, 0] [0, 0]]
   \<and> any_non_integer [3 / 2]
   \<and> get_EOS_terms (JArr [exponential_record_fractional])
       = Inr [ExponentialEOSTerm [1] [1] [1] [1] [3 / 2] [1]]
   \<and> build_departure_function GERG_record_fractional
       = Inr [PowerEOSTerm [1] [1] [1] [1] [3 / 2] [1],
              GERG2004EOSTerm [2] [2] [2] [3] [4] [5] [6]]"
  by (simp add: get_EOS_terms_def power_record_mismatched_def build_term_def build_power_def
      exponential_record_fractional_def build_exponential_def
      build_departure_function_def GERG_record_fractional_def build_GERG2004_def
      composite_power_part_def composite_gaussian_part_def
      isallowed_def allowed_types_def json_eval)

text \<open>
  The sibling builders do raise on the same data: the \<^verbatim>\<open>build_power\<close> of
  \<^verbatim>\<open>build_departure_function\<close> on the arrays of different lengths, and the builders of
  the Lemmon2005 and of the power term on the exponent \<open>3/2\<close>.
\<close>

lemma sibling_builders_check:
  "build_departure_function power_record_mismatched_departure
     = Inl (invalid_argument ''Lengths are not all identical in polynomial term'')"
  "get_EOS_terms (JArr [Lemmon2005_record_fractional])
     = Inl (invalid_argument ''Non-integer entry in l found'')"
  "get_EOS_terms (JArr [power_record_fractional])
     = Inl (invalid_argument ''Non-integer entry in l found'')"
  by (simp_all add: build_departure_function_def power_record_mismatched_departure_def
      dep_build_power_def get_EOS_terms_def Lemmon2005_record_fractional_def
      power_record_fractional_def build_term_def build_Lemmon2005_def build_power_def
      isallowed_def allowed_types_def json_eval)

text \<open>
  The conversion of \<open>l\<close> to \<^verbatim>\<open>int\<close> has 32 bits: an integral exponent beyond the range,
  here \<open>3000000000\<close>, is converted to \<^verbatim>\<open>INT_MIN\<close>, and the integrality test of the
  power term rejects the record.
\<close>

lemma power_large_exponent_rejected:
  "cast_int 3000000000 = - 2147483648"
  "cast_int (3 / 2) = 1"
  "cast_int (- 3 / 2) = - 1"
  "get_EOS_terms (JArr [power_record_large_exponent])
     = Inl (invalid_argument ''Non-integer entry in l found'')"
  by (simp_all add: get_EOS_terms_def power_record_large_exponent_def build_term_def
      build_power_def isallowed_def allowed_types_def json_eval)




text \<open>
  C6, at a failing input.  The catalog holds one record, for \<open>(Ab, Cd)\<close> with
  \<open>betaT = 2\<close> and \<open>betaV = 4\<close>.  The pair \<open>(cd, ab)\<close> matches it in reversed order once
  the case of the letters is ignored, and \<^verbatim>\<open>get_BIPdep\<close> returns the record; but
  \<^verbatim>\<open>get_binary_interaction_double\<close> compares the names as they are written, does not
  see the reversal and returns \<open>betaT = 2\<close>, \<open>betaV = 4\<close>, the same values as for
  \<open>(ab, cd)\<close>.  With the names written as in the record the reversed pair gets the
  reciprocals.
\<close>

theorem get_binary_interaction_double_case_slip:
  "get_BIPdep catalog_AbCd [''cd'', ''ab''] JNull = Inr (hd (items catalog_AbCd))
   \<and> record_matches (hd (items catalog_AbCd)) ''cd'' ''ab''
   \<and> get_binary_interaction_double catalog_AbCd [''cd'', ''ab''] JNull = Inr (2, 3, 4, 5)
   \<and> get_binary_interaction_double catalog_AbCd [''ab'', ''cd''] JNull = Inr (2, 3, 4, 5)
   \<and> get_binary_interaction_double catalog_AbCd [''Ab'', ''Cd''] JNull = Inr (2, 3, 4, 5)
   \<and> get_binary_interaction_double catalog_AbCd [''Cd'', ''Ab''] JNull = Inr (1 / 2, 3, 1 / 4, 5)"
  by (simp add: catalog_AbCd_def resolve_eval record_matches_def record_names_def)

text \<open>
  When the pair is written exactly as the names of the record that resolves it, the two
  orders do give reciprocal \<open>betaT\<close>, \<open>betaV\<close> and the same \<open>gammaT\<close>, \<open>gammaV\<close>.
\<close>

lemma get_binary_interaction_double_exact_names:
  assumes "get_BIPdep collection [a, b] flags = Inr el"
    and "idx el ''Name1'' = Inr (JStr a)" and "idx el ''Name2'' = Inr (JStr b)" and "a \<noteq> b"
    and "field_double el ''betaT'' = Inr bT" and "field_double el ''gammaT'' = Inr gT"
    and "field_double el ''betaV'' = Inr bV" and "field_double el ''gammaV'' = Inr gV"
  shows "get_binary_interaction_double collection [a, b] flags = Inr (bT, gT, bV, gV)"
    and "get_binary_interaction_double collection [b, a] flags = Inr (1 / bT, gT, 1 / bV, gV)"
proof -
  have sw: "get_BIPdep collection [b, a] flags = Inr el"
    unfolding get_BIPdep_swap [of collection b a flags] by (rule assms(1))
  show "get_binary_interaction_double collection [a, b] flags = Inr (bT, gT, bV, gV)"
    using assms by (simp add: get_binary_interaction_double_def ebind_def)
  show "get_binary_interaction_double collection [b, a] flags = Inr (1 / bT, gT, 1 / bV, gV)"
    using sw assms(2-) by (simp add: get_binary_interaction_double_def ebind_def)
qed

text \<open>
  C7, as the code has it.  For a pair \<open>i < j\<close> of components whose resolved record has
  no departure-function name (the member \<open>function\<close> is absent or the empty string), the
  step of \<^verbatim>\<open>get_departure_function_matrix\<close> for the pair returns normally and appends
  the Null term to both entries of the pair; in the matrix the function returns, both
  entries are exactly the Null term; and in the matrix \<^verbatim>\<open>get_F_matrix\<close> returns, both
  entries of the pair are the value of the record's member \<open>F\<close>, whatever it is.
\<close>

theorem pair_without_departure_function:
  assumes "i < j" and "j < length components"
    and "get_BIPdep BIPcollection [components ! i, components ! j] flags = Inr el"
    and "\<not> contains el ''function'' \<or> idx el ''function'' = Inr (JStr [])"
  shows "(\<forall>fs. departure_pair depcollection BIPcollection components flags i j fs
             = Inr (set_entry (set_entry fs i j (fs i j @ [NullEOSTerm])) j i (fs j i @ [NullEOSTerm])))
       \<and> (\<forall>fm. get_departure_function_matrix depcollection BIPcollection components flags = Inr fm
             \<longrightarrow> fm i j = [NullEOSTerm] \<and> fm j i = [NullEOSTerm])
       \<and> (\<forall>Fm. get_F_matrix BIPcollection components flags = Inr Fm
             \<longrightarrow> field_double el ''F'' = Inr (Fm i j) \<and> Fm j i = Fm i j)"
proof (intro conjI allI impI)
  from assms(1) have ne: "i \<noteq> j" by simp
  show step: "departure_pair depcollection BIPcollection components flags i j fs
      = Inr (set_entry (set_entry fs i j (fs i j @ [NullEOSTerm])) j i (fs j i @ [NullEOSTerm]))" for fs
    by (rule departure_pair_no_function [OF assms(3) assms(4) ne])
  {
    fix fm
    assume "get_departure_function_matrix depcollection BIPcollection components flags = Inr fm"
    then have run: "for_each [0..<length components] (\<lambda>i s. for_each [Suc i..<length components]
          (departure_pair depcollection BIPcollection components flags i) ((\<lambda>a t. t) i s)) (\<lambda>i j. []) = Inr fm"
      by (simp add: get_departure_function_matrix_def Let_def)
    have "\<exists>t t'. departure_pair depcollection BIPcollection components flags i j t = Inr t'
            \<and> t i j = (\<lambda>i j. []) i j \<and> t j i = (\<lambda>i j. []) j i \<and> fm i j = t' i j \<and> fm j i = t' j i"
      by (rule for_each_pairs_cell [where sel = "\<lambda>s. s", OF run assms(1) assms(2)])
         (auto dest: departure_pair_frame)
    then obtain t t' where
      "departure_pair depcollection BIPcollection components flags i j t = Inr t'"
      "t i j = []" "t j i = []" "fm i j = t' i j" "fm j i = t' j i"
      by auto
    with step [of t] ne show "fm i j = [NullEOSTerm]" "fm j i = [NullEOSTerm]"
      by (auto simp: set_entry_def)
  }
  {
    fix Fm
    assume "get_F_matrix BIPcollection components flags = Inr Fm"
    then have run: "for_each [0..<length components] (\<lambda>i s. for_each [Suc i..<length components]
          (F_pair BIPcollection components flags i) ((\<lambda>a t. set_entry t a a 0) i s)) zeros = Inr Fm"
      by (simp add: get_F_matrix_def Let_def)
    have "\<exists>t t'. F_pair BIPcollection components flags i j t = Inr t'
            \<and> t i j = zeros i j \<and> t j i = zeros j i \<and> Fm i j = t' i j \<and> Fm j i = t' j i"
      by (rule for_each_pairs_cell [where sel = "\<lambda>s. s", OF run assms(1) assms(2)])
         (auto dest: F_pair_frame simp: set_entry_def)
    then obtain t t' where
      "F_pair BIPcollection components flags i j t = Inr t'" "Fm i j = t' i j" "Fm j i = t' j i"
      by auto
    with F_pair_value [OF assms(3)] show "field_double el ''F'' = Inr (Fm i j)" "Fm j i = Fm i j"
      by auto
  }
qed

theorem pair_without_departure_function_witness:
  "(0::nat) < 1 \<and> 1 < length [''Ab'', ''Cd'']
   \<and> get_BIPdep catalog_AbCd [[''Ab'', ''Cd''] ! 0, [''Ab'', ''Cd''] ! 1] JNull
       = Inr (hd (items catalog_AbCd))
   \<and> idx (hd (items catalog_AbCd)) ''function'' = Inr (JStr [])
   \<and> (\<exists>fm. get_departure_function_matrix JNull catalog_AbCd [''Ab'', ''Cd''] JNull = Inr fm
         \<and> fm 0 1 = [NullEOSTerm] \<and> fm 1 0 = [NullEOSTerm])
   \<and> (\<exists>Fm. get_F_matrix catalog_AbCd [''Ab'', ''Cd''] JNull = Inr Fm
         \<and> field_double (hd (items catalog_AbCd)) ''F'' = Inr (Fm 0 1) \<and> Fm 1 0 = Fm 0 1)"
proof -
  have h1: "(0::nat) < 1" by simp
  have h2: "1 < length [''Ab'', ''Cd'']" by simp
  note h3 = catalog_AbCd_resolves
  have h4: "idx (hd (items catalog_AbCd)) ''function'' = Inr (JStr [])"
    by (simp add: catalog_AbCd_def)
  then have h4': "\<not> contains (hd (items catalog_AbCd)) ''function''
      \<or> idx (hd (items catalog_AbCd)) ''function'' = Inr (JStr [])" ..
  obtain fm where fm: "get_departure_function_matrix JNull catalog_AbCd [''Ab'', ''Cd''] JNull = Inr fm"
    by (simp add: catalog_AbCd_departure_matrix)
  obtain Fm where Fm: "get_F_matrix catalog_AbCd [''Ab'', ''Cd''] JNull = Inr Fm"
    by (simp add: catalog_AbCd_F_matrix)
  from pair_without_departure_function [OF h1 h2 h3 h4', of JNull] fm Fm
  have "fm 0 1 = [NullEOSTerm] \<and> fm 1 0 = [NullEOSTerm]"
    and "field_double (hd (items catalog_AbCd)) ''F'' = Inr (Fm 0 1) \<and> Fm 1 0 = Fm 0 1"
    by blast+
  with h1 h2 h3 h4 fm Fm show ?thesis by blast
qed

text \<open>
  The claim C7 as stated has \<open>F = 0\<close> for such a pair.  The record of the catalog names
  no departure function and has \<open>F = 1\<close>: the departure entries are the Null term and the
  interaction factor of the pair is \<open>1\<close>.
\<close>

theorem F_matrix_keeps_record_F:
  "\<exists>Fm fm. get_BIPdep catalog_AbCd [''Ab'', ''Cd''] JNull = Inr (hd (items catalog_AbCd))
     \<and> idx (hd (items catalog_AbCd)) ''function'' = Inr (JStr [])
     \<and> get_departure_function_matrix JNull catalog_AbCd [''Ab'', ''Cd''] JNull = Inr fm
     \<and> fm 0 1 = [NullEOSTerm] \<and> fm 1 0 = [NullEOSTerm]
     \<and> get_F_matrix catalog_AbCd [''Ab'', ''Cd''] JNull = Inr Fm
     \<and> Fm 0 1 = 1 \<and> Fm 1 0 = 1 \<and> Fm 0 1 \<noteq> 0"
  using catalog_AbCd_resolves
  by (simp add: catalog_AbCd_F_matrix catalog_AbCd_departure_matrix set_entry_def)
     (simp add: catalog_AbCd_def)

text \<open>
  C8.  With component densities \<open>rhovec\<close>, calling \<^verbatim>\<open>alphar(T, rhovec)\<close> without a total
  density and calling it with the total density set to the sum of the entries of
  \<open>rhovec\<close> give the same result: both evaluate the model at the total density
  \<open>sum rhovec\<close> and the mole fractions \<open>rhovec / sum rhovec\<close>.
\<close>

theorem MultiFluid_alphar_rhovec_override:
  "MultiFluid_alphar_rhovec I model T rhovec None
     = MultiFluid_alphar_rhovec I model T rhovec (Some (sum_list rhovec))
   \<and> MultiFluid_alphar_rhovec I model T rhovec None
     = MultiFluid_alphar I model T (sum_list rhovec) (map (\<lambda>r. r / sum_list rhovec) rhovec)"
  by (simp add: MultiFluid_alphar_rhovec_def accumulate_sum_list Let_def)




text \<open>
  C10.  Whenever the flags object holds the key \<open>estimate\<close>, \<^verbatim>\<open>get_BIPdep\<close> returns
  the identity default, the object with the members \<open>betaT = 1\<close>, \<open>gammaT = 1\<close>,
  \<open>betaV = 1\<close>, \<open>gammaV = 1\<close> and \<open>F = 0\<close> (these are the values read from it), whatever
  the collection and the pair are: the collection is not read, so a record that matches
  the pair is ignored.
\<close>

theorem get_BIPdep_estimate_unconditional:
  "contains flags ''estimate'' \<Longrightarrow>
     get_BIPdep collection components flags
       = Inr (JObj [(''betaT'', JNum 1), (''gammaT'', JNum 1), (''betaV'', JNum 1),
                    (''gammaV'', JNum 1), (''F'', JNum 0)])
     \<and> (\<exists>el. get_BIPdep collection components flags = Inr el
           \<and> field_double el ''betaT'' = Inr 1 \<and> field_double el ''gammaT'' = Inr 1
           \<and> field_double el ''betaV'' = Inr 1 \<and> field_double el ''gammaV'' = Inr 1
           \<and> field_double el ''F'' = Inr 0)"
  by (simp add: get_BIPdep_def estimated_BIP_def field_double_def ebind_def)

theorem get_BIPdep_estimate_unconditional_witness:
  "contains estimate_flags ''estimate''
   \<and> record_matches (hd (items catalog_AbCd)) ''Ab'' ''Cd''
   \<and> get_BIPdep catalog_AbCd [''Ab'', ''Cd''] estimate_flags
       = Inr (JObj [(''betaT'', JNum 1), (''gammaT'', JNum 1), (''betaV'', JNum 1),
                    (''gammaV'', JNum 1), (''F'', JNum 0)])
   \<and> get_BIPdep catalog_AbCd [''Ab'', ''Cd''] JNull = Inr (hd (items catalog_AbCd))
   \<and> field_double (hd (items catalog_AbCd)) ''betaT'' = Inr 2"
proof -
  have h: "contains estimate_flags ''estimate''"
    by (simp add: estimate_flags_def)
  have m: "record_matches (hd (items catalog_AbCd)) ''Ab'' ''Cd''"
    by (simp add: catalog_AbCd_def record_matches_def record_names_def)
  have n: "get_BIPdep catalog_AbCd [''Ab'', ''Cd''] JNull = Inr (hd (items catalog_AbCd))"
    "field_double (hd (items catalog_AbCd)) ''betaT'' = Inr 2"
    by (simp_all add: catalog_AbCd_def resolve_eval)
  show ?thesis
    using h m n get_BIPdep_estimate_unconditional [OF h, of catalog_AbCd "[''Ab'', ''Cd'']"]
    by simp
qed

text \<open>
  Under the key \<open>estimate\<close> the four parameters \<^verbatim>\<open>get_binary_interaction_double\<close>
  reads for a pair are all \<open>1\<close>, in either order of the pair: the default carries no
  names, so nothing is inverted.
\<close>

lemma get_binary_interaction_double_estimate:
  assumes "contains flags ''estimate''"
  shows "get_binary_interaction_double collection [a, b] flags = Inr (1, 1, 1, 1)"
  using assms
  by (simp add: get_binary_interaction_double_def get_BIPdep_def estimated_BIP_def
      field_double_def ebind_def)

end
